theory Spec2Isabelle
  imports Main
begin

section \<open>Comic Storyboarder: projects, pages and panels behind an ownership chain\<close>

text \<open>
  The program is a set of eleven server actions over three relational tables
  (\<open>ComicProjects\<close>, \<open>ComicPages\<close>, \<open>ComicPanels\<close>). Every handler is an
  \<open>async\<close> function: it reads the signed-in user from the request context, checks the
  ownership chain with \<open>getOwnedProject\<close> / \<open>getOwnedPage\<close> and then issues one or
  two statements against the store. A thrown \<open>ActionError\<close> ends the handler at once.

  The embedding threads the store through every step and keeps errors as values: a
  computation is a function from the store to a result (\<open>Inl\<close> the error thrown,
  \<open>Inr\<close> the value returned) together with the store as it is left. The store also
  records every statement issued against it, so that "no store access" is a property of
  the model. The success envelope \<open>{ success: true, data }\<close> is \<open>Inr data\<close>.
\<close>

subsection \<open>Tables (src/db/tables.ts)\<close>

text \<open>
  Text columns are strings, optional columns are options, dates are milliseconds as
  integers, \<open>column.number()\<close> holds the integers the input schemas let through.
  The three tables share column names; the fields carry a prefix per table.
\<close>

record project_row =
  prj_id :: string
  prj_userId :: string
  prj_title :: string
  prj_description :: "string option"
  prj_genre :: "string option"
  prj_format :: "string option"
  prj_targetAudience :: "string option"
  prj_createdAt :: int
  prj_updatedAt :: int

record page_row =
  pg_id :: string
  pg_projectId :: string
  pg_pageNumber :: int
  pg_title :: "string option"
  pg_thumbnailUrl :: "string option"
  pg_notes :: "string option"
  pg_createdAt :: int
  pg_updatedAt :: int

record panel_row =
  pn_id :: string
  pn_pageId :: string
  pn_panelIndex :: int
  pn_layoutJson :: "string option"
  pn_description :: "string option"
  pn_dialogue :: "string option"
  pn_caption :: "string option"
  pn_soundEffects :: "string option"
  pn_createdAt :: int

datatype table_name = ComicProjects | ComicPages | ComicPanels

datatype statement =
  SELECT table_name | INSERT table_name | UPDATE table_name | DELETE table_name

text \<open>
  The store: the rows of each table in insertion order, and the statements issued so
  far (oldest first).
\<close>

record store =
  projects :: "project_row list"
  pages :: "page_row list"
  panels :: "panel_row list"
  statements :: "statement list"

subsection \<open>Errors and computations\<close>

datatype error_code = UNAUTHORIZED | NOT_FOUND

datatype zod_issue = too_small string | custom string

text \<open>
  The constraints the tables declare: the primary key \<open>id\<close> of each table, and the
  references \<open>ComicPages.projectId\<close> to \<open>ComicProjects.id\<close> and \<open>ComicPanels.pageId\<close>
  to \<open>ComicPages.id\<close>. A statement that would break one is refused by the store with a
  constraint error that carries the table the statement was issued against.
\<close>

datatype constraint = PRIMARYKEY | FOREIGNKEY

datatype error =
  ActionError error_code string
  | ActionInputError "zod_issue list"
  | ConstraintError constraint table_name

type_synonym 'a io = "store \<Rightarrow> (error + 'a) \<times> store"

definition return_io :: "'a \<Rightarrow> 'a io" where
  "return_io x = (\<lambda>s. (Inr x, s))"

definition throw :: "error \<Rightarrow> 'a io" where
  "throw e = (\<lambda>s. (Inl e, s))"

text \<open>\<open>const x = await m; k x\<close>: a rejection of \<open>m\<close> skips the rest.\<close>

definition await :: "'a io \<Rightarrow> ('a \<Rightarrow> 'b io) \<Rightarrow> 'b io" where
  "await m k = (\<lambda>s. case m s of (Inl e, s') \<Rightarrow> (Inl e, s') | (Inr x, s') \<Rightarrow> k x s')"

text \<open>\<open>const [x] = rows\<close>: the first row, or \<open>undefined\<close>.\<close>

definition first :: "'a list \<Rightarrow> 'a option" where
  "first rows = (case rows of [] \<Rightarrow> None | r # _ \<Rightarrow> Some r)"

subsection \<open>The store's statements\<close>

text \<open>
  Modelled from the spec: the relational store (\<open>db\<close> of \<open>astro:db\<close>) is a library,
  described in the spec as "filtered select/insert/update/delete with
  row-count/returning-row feedback" over tables with primary keys and foreign-key
  references. A select returns the rows that satisfy the condition; an insert is refused
  when the primary key \<open>id\<close> is already present or when the row references a parent that
  does not exist, and otherwise appends the row and returns it; an update assigns the
  columns of the \<open>set\<close> object in every row that satisfies the condition and returns the
  updated rows (no handler assigns a key or a reference); a delete removes the rows that
  satisfy the condition and reports how many there were, and is refused as a whole, no
  row removed, when a row it would remove is still referenced by a child row. A refused
  statement is still a statement issued.
\<close>

definition issue :: "statement \<Rightarrow> store \<Rightarrow> store" where
  "issue st s = s\<lparr>statements := statements s @ [st]\<rparr>"

definition select_projects :: "(project_row \<Rightarrow> bool) \<Rightarrow> project_row list io" where
  "select_projects cond = (\<lambda>s. (Inr (filter cond (projects s)), issue (SELECT ComicProjects) s))"

definition select_pages :: "(page_row \<Rightarrow> bool) \<Rightarrow> page_row list io" where
  "select_pages cond = (\<lambda>s. (Inr (filter cond (pages s)), issue (SELECT ComicPages) s))"

definition select_panels :: "(panel_row \<Rightarrow> bool) \<Rightarrow> panel_row list io" where
  "select_panels cond = (\<lambda>s. (Inr (filter cond (panels s)), issue (SELECT ComicPanels) s))"

definition insert_project :: "project_row \<Rightarrow> project_row list io" where
  "insert_project row = (\<lambda>s.
     if (\<exists>r \<in> set (projects s). prj_id r = prj_id row)
     then (Inl (ConstraintError PRIMARYKEY ComicProjects), issue (INSERT ComicProjects) s)
     else (Inr [row], issue (INSERT ComicProjects) (s\<lparr>projects := projects s @ [row]\<rparr>)))"

definition insert_page :: "page_row \<Rightarrow> page_row list io" where
  "insert_page row = (\<lambda>s.
     if (\<exists>r \<in> set (pages s). pg_id r = pg_id row)
     then (Inl (ConstraintError PRIMARYKEY ComicPages), issue (INSERT ComicPages) s)
     else if (\<exists>p \<in> set (projects s). prj_id p = pg_projectId row)
     then (Inr [row], issue (INSERT ComicPages) (s\<lparr>pages := pages s @ [row]\<rparr>))
     else (Inl (ConstraintError FOREIGNKEY ComicPages), issue (INSERT ComicPages) s))"

definition insert_panel :: "panel_row \<Rightarrow> panel_row list io" where
  "insert_panel row = (\<lambda>s.
     if (\<exists>r \<in> set (panels s). pn_id r = pn_id row)
     then (Inl (ConstraintError PRIMARYKEY ComicPanels), issue (INSERT ComicPanels) s)
     else if (\<exists>g \<in> set (pages s). pg_id g = pn_pageId row)
     then (Inr [row], issue (INSERT ComicPanels) (s\<lparr>panels := panels s @ [row]\<rparr>))
     else (Inl (ConstraintError FOREIGNKEY ComicPanels), issue (INSERT ComicPanels) s))"

definition update_projects ::
  "(project_row \<Rightarrow> project_row) \<Rightarrow> (project_row \<Rightarrow> bool) \<Rightarrow> project_row list io" where
  "update_projects assign cond = (\<lambda>s.
     (Inr (map assign (filter cond (projects s))),
      issue (UPDATE ComicProjects)
        (s\<lparr>projects := map (\<lambda>r. if cond r then assign r else r) (projects s)\<rparr>)))"

definition update_pages ::
  "(page_row \<Rightarrow> page_row) \<Rightarrow> (page_row \<Rightarrow> bool) \<Rightarrow> page_row list io" where
  "update_pages assign cond = (\<lambda>s.
     (Inr (map assign (filter cond (pages s))),
      issue (UPDATE ComicPages)
        (s\<lparr>pages := map (\<lambda>r. if cond r then assign r else r) (pages s)\<rparr>)))"

definition update_panels ::
  "(panel_row \<Rightarrow> panel_row) \<Rightarrow> (panel_row \<Rightarrow> bool) \<Rightarrow> panel_row list io" where
  "update_panels assign cond = (\<lambda>s.
     (Inr (map assign (filter cond (panels s))),
      issue (UPDATE ComicPanels)
        (s\<lparr>panels := map (\<lambda>r. if cond r then assign r else r) (panels s)\<rparr>)))"

text \<open>
  The value of a delete is \<open>rowsAffected\<close>. A page that a panel references through
  \<open>pageId\<close> cannot be deleted: the statement fails and removes nothing. Nothing
  references a panel.
\<close>

definition delete_pages :: "(page_row \<Rightarrow> bool) \<Rightarrow> nat io" where
  "delete_pages cond = (\<lambda>s.
     if (\<exists>n \<in> set (panels s). \<exists>g \<in> set (pages s). cond g \<and> pn_pageId n = pg_id g)
     then (Inl (ConstraintError FOREIGNKEY ComicPages), issue (DELETE ComicPages) s)
     else (Inr (length (filter cond (pages s))),
           issue (DELETE ComicPages) (s\<lparr>pages := filter (\<lambda>r. \<not> cond r) (pages s)\<rparr>)))"

definition delete_panels :: "(panel_row \<Rightarrow> bool) \<Rightarrow> nat io" where
  "delete_panels cond = (\<lambda>s.
     (Inr (length (filter cond (panels s))),
      issue (DELETE ComicPanels) (s\<lparr>panels := filter (\<lambda>r. \<not> cond r) (panels s)\<rparr>)))"

text \<open>
  One entry of a \<open>set\<close> object written \<open>...(v !== undefined ? { col: v } : {})\<close>:
  the column is assigned when the input field is present and left alone otherwise.
\<close>

definition spread :: "'v option \<Rightarrow> ('v \<Rightarrow> 'r \<Rightarrow> 'r) \<Rightarrow> 'r \<Rightarrow> 'r" where
  "spread v col r = (case v of None \<Rightarrow> r | Some x \<Rightarrow> col x r)"

subsection \<open>Request context and the authorization gate\<close>

record app_user =
  user_id :: string

record app_locals =
  user :: "app_user option"

record action_context =
  locals :: "app_locals option"

text \<open>
  What a handler takes from its surroundings besides the store: the value of
  \<open>crypto.randomUUID()\<close> and of \<open>new Date()\<close> (each handler calls each at most once).
\<close>

record runtime =
  randomUUID :: string
  now :: int

definition requireUser :: "action_context \<Rightarrow> app_user io" where
  "requireUser context =
     (let user = (case locals context of None \<Rightarrow> None | Some l \<Rightarrow> user l)
      in case user of
           None \<Rightarrow> throw (ActionError UNAUTHORIZED ''You must be signed in to perform this action.'')
         | Some u \<Rightarrow> return_io u)"

subsection \<open>The ownership chain\<close>

definition getOwnedProject :: "string \<Rightarrow> string \<Rightarrow> project_row io" where
  "getOwnedProject projectId userId =
     await (select_projects (\<lambda>r. prj_id r = projectId \<and> prj_userId r = userId)) (\<lambda>rows.
     case first rows of
       None \<Rightarrow> throw (ActionError NOT_FOUND ''Project not found.'')
     | Some project \<Rightarrow> return_io project)"

definition getOwnedPage :: "string \<Rightarrow> string \<Rightarrow> string \<Rightarrow> page_row io" where
  "getOwnedPage pageId projectId userId =
     await (getOwnedProject projectId userId) (\<lambda>_.
     await (select_pages (\<lambda>r. pg_id r = pageId \<and> pg_projectId r = projectId)) (\<lambda>rows.
     case first rows of
       None \<Rightarrow> throw (ActionError NOT_FOUND ''Page not found.'')
     | Some page \<Rightarrow> return_io page))"

subsection \<open>Inputs and their schemas\<close>

text \<open>
  An input object is a record; a field declared \<open>.optional()\<close> is an option. The
  schema of an action is a function from the input to the issues it raises: the
  \<open>min(1)\<close> checks of the fields, then the \<open>refine\<close> predicate of the object.
\<close>

definition min1 :: "string \<Rightarrow> string \<Rightarrow> zod_issue list" where
  "min1 path v = (if length v < 1 then [too_small path] else [])"

definition optional :: "('v \<Rightarrow> zod_issue list) \<Rightarrow> 'v option \<Rightarrow> zod_issue list" where
  "optional check v = (case v of None \<Rightarrow> [] | Some x \<Rightarrow> check x)"

definition int_min1 :: "string \<Rightarrow> int \<Rightarrow> zod_issue list" where
  "int_min1 path n = (if n < 1 then [too_small path] else [])"

definition refine :: "bool \<Rightarrow> string \<Rightarrow> zod_issue list" where
  "refine ok message = (if ok then [] else [custom message])"

record createProject_args =
  cpj_title :: string
  cpj_description :: "string option"
  cpj_genre :: "string option"
  cpj_format :: "string option"
  cpj_targetAudience :: "string option"

record updateProject_args =
  upj_id :: string
  upj_title :: "string option"
  upj_description :: "string option"
  upj_genre :: "string option"
  upj_format :: "string option"
  upj_targetAudience :: "string option"

record createPage_args =
  cpg_projectId :: string
  cpg_pageNumber :: int
  cpg_title :: "string option"
  cpg_thumbnailUrl :: "string option"
  cpg_notes :: "string option"

record updatePage_args =
  upg_id :: string
  upg_projectId :: string
  upg_pageNumber :: "int option"
  upg_title :: "string option"
  upg_thumbnailUrl :: "string option"
  upg_notes :: "string option"

record deletePage_args =
  dpg_id :: string
  dpg_projectId :: string

record listPages_args =
  lpg_projectId :: string

record createPanel_args =
  cpn_pageId :: string
  cpn_projectId :: string
  cpn_panelIndex :: int
  cpn_layoutJson :: "string option"
  cpn_description :: "string option"
  cpn_dialogue :: "string option"
  cpn_caption :: "string option"
  cpn_soundEffects :: "string option"

record updatePanel_args =
  upn_id :: string
  upn_pageId :: string
  upn_projectId :: string
  upn_panelIndex :: "int option"
  upn_layoutJson :: "string option"
  upn_description :: "string option"
  upn_dialogue :: "string option"
  upn_caption :: "string option"
  upn_soundEffects :: "string option"

record deletePanel_args =
  dpn_id :: string
  dpn_pageId :: string
  dpn_projectId :: string

record listPanels_args =
  lpn_pageId :: string
  lpn_projectId :: string

record 'a listing =
  items :: "'a list"
  total :: nat

definition createProject_input :: "createProject_args \<Rightarrow> zod_issue list" where
  "createProject_input input = min1 ''title'' (cpj_title input)"

definition updateProject_refine :: "updateProject_args \<Rightarrow> bool" where
  "updateProject_refine input \<longleftrightarrow>
     upj_title input \<noteq> None \<or>
     upj_description input \<noteq> None \<or>
     upj_genre input \<noteq> None \<or>
     upj_format input \<noteq> None \<or>
     upj_targetAudience input \<noteq> None"

definition updateProject_input :: "updateProject_args \<Rightarrow> zod_issue list" where
  "updateProject_input input =
     min1 ''id'' (upj_id input) @
     optional (min1 ''title'') (upj_title input) @
     refine (updateProject_refine input) ''At least one field must be provided to update.''"

definition listProjects_input :: "unit \<Rightarrow> zod_issue list" where
  "listProjects_input input = []"

definition createPage_input :: "createPage_args \<Rightarrow> zod_issue list" where
  "createPage_input input =
     min1 ''projectId'' (cpg_projectId input) @
     int_min1 ''pageNumber'' (cpg_pageNumber input)"

definition updatePage_refine :: "updatePage_args \<Rightarrow> bool" where
  "updatePage_refine input \<longleftrightarrow>
     upg_pageNumber input \<noteq> None \<or>
     upg_title input \<noteq> None \<or>
     upg_thumbnailUrl input \<noteq> None \<or>
     upg_notes input \<noteq> None"

definition updatePage_input :: "updatePage_args \<Rightarrow> zod_issue list" where
  "updatePage_input input =
     min1 ''id'' (upg_id input) @
     min1 ''projectId'' (upg_projectId input) @
     optional (int_min1 ''pageNumber'') (upg_pageNumber input) @
     refine (updatePage_refine input) ''At least one field must be provided to update.''"

definition deletePage_input :: "deletePage_args \<Rightarrow> zod_issue list" where
  "deletePage_input input =
     min1 ''id'' (dpg_id input) @ min1 ''projectId'' (dpg_projectId input)"

definition listPages_input :: "listPages_args \<Rightarrow> zod_issue list" where
  "listPages_input input = min1 ''projectId'' (lpg_projectId input)"

definition createPanel_input :: "createPanel_args \<Rightarrow> zod_issue list" where
  "createPanel_input input =
     min1 ''pageId'' (cpn_pageId input) @ min1 ''projectId'' (cpn_projectId input)"

definition updatePanel_refine :: "updatePanel_args \<Rightarrow> bool" where
  "updatePanel_refine input \<longleftrightarrow>
     upn_panelIndex input \<noteq> None \<or>
     upn_layoutJson input \<noteq> None \<or>
     upn_description input \<noteq> None \<or>
     upn_dialogue input \<noteq> None \<or>
     upn_caption input \<noteq> None \<or>
     upn_soundEffects input \<noteq> None"

definition updatePanel_input :: "updatePanel_args \<Rightarrow> zod_issue list" where
  "updatePanel_input input =
     min1 ''id'' (upn_id input) @
     min1 ''pageId'' (upn_pageId input) @
     min1 ''projectId'' (upn_projectId input) @
     refine (updatePanel_refine input) ''At least one field must be provided to update.''"

definition deletePanel_input :: "deletePanel_args \<Rightarrow> zod_issue list" where
  "deletePanel_input input =
     min1 ''id'' (dpn_id input) @
     min1 ''pageId'' (dpn_pageId input) @
     min1 ''projectId'' (dpn_projectId input)"

definition listPanels_input :: "listPanels_args \<Rightarrow> zod_issue list" where
  "listPanels_input input =
     min1 ''pageId'' (lpn_pageId input) @ min1 ''projectId'' (lpn_projectId input)"

text \<open>
  Modelled from the spec: \<open>defineAction\<close> of \<open>astro:actions\<close> is a library; the spec
  describes it as the input schema validator that "rejects malformed/missing required
  fields before a handler body runs". An input with issues is rejected with them and the
  handler is not called.
\<close>

definition defineAction ::
  "('i \<Rightarrow> zod_issue list) \<Rightarrow> ('i \<Rightarrow> action_context \<Rightarrow> runtime \<Rightarrow> 'r io)
     \<Rightarrow> 'i \<Rightarrow> action_context \<Rightarrow> runtime \<Rightarrow> 'r io" where
  "defineAction input handler i context rt =
     (case input i of
        [] \<Rightarrow> handler i context rt
      | x # xs \<Rightarrow> throw (ActionInputError (x # xs)))"

subsection \<open>Handlers\<close>

definition createProject_handler ::
  "createProject_args \<Rightarrow> action_context \<Rightarrow> runtime \<Rightarrow> project_row option io" where
  "createProject_handler input context rt =
     await (requireUser context) (\<lambda>user.
     await (insert_project
       \<lparr>prj_id = randomUUID rt,
        prj_userId = user_id user,
        prj_title = cpj_title input,
        prj_description = cpj_description input,
        prj_genre = cpj_genre input,
        prj_format = cpj_format input,
        prj_targetAudience = cpj_targetAudience input,
        prj_createdAt = now rt,
        prj_updatedAt = now rt\<rparr>) (\<lambda>rows.
     return_io (first rows)))"

definition updateProject_set :: "updateProject_args \<Rightarrow> runtime \<Rightarrow> project_row \<Rightarrow> project_row" where
  "updateProject_set input rt =
     (\<lambda>r. r\<lparr>prj_updatedAt := now rt\<rparr>) \<circ>
     spread (upj_targetAudience input) (\<lambda>v r. r\<lparr>prj_targetAudience := Some v\<rparr>) \<circ>
     spread (upj_format input) (\<lambda>v r. r\<lparr>prj_format := Some v\<rparr>) \<circ>
     spread (upj_genre input) (\<lambda>v r. r\<lparr>prj_genre := Some v\<rparr>) \<circ>
     spread (upj_description input) (\<lambda>v r. r\<lparr>prj_description := Some v\<rparr>) \<circ>
     spread (upj_title input) (\<lambda>v r. r\<lparr>prj_title := v\<rparr>)"

definition updateProject_handler ::
  "updateProject_args \<Rightarrow> action_context \<Rightarrow> runtime \<Rightarrow> project_row option io" where
  "updateProject_handler input context rt =
     await (requireUser context) (\<lambda>user.
     await (getOwnedProject (upj_id input) (user_id user)) (\<lambda>_.
     await (update_projects (updateProject_set input rt) (\<lambda>r. prj_id r = upj_id input)) (\<lambda>rows.
     return_io (first rows))))"

definition listProjects_handler ::
  "unit \<Rightarrow> action_context \<Rightarrow> runtime \<Rightarrow> project_row listing io" where
  "listProjects_handler input context rt =
     await (requireUser context) (\<lambda>user.
     await (select_projects (\<lambda>r. prj_userId r = user_id user)) (\<lambda>projects.
     return_io \<lparr>items = projects, total = length projects\<rparr>))"

definition createPage_handler ::
  "createPage_args \<Rightarrow> action_context \<Rightarrow> runtime \<Rightarrow> page_row option io" where
  "createPage_handler input context rt =
     await (requireUser context) (\<lambda>user.
     await (getOwnedProject (cpg_projectId input) (user_id user)) (\<lambda>_.
     await (insert_page
       \<lparr>pg_id = randomUUID rt,
        pg_projectId = cpg_projectId input,
        pg_pageNumber = cpg_pageNumber input,
        pg_title = cpg_title input,
        pg_thumbnailUrl = cpg_thumbnailUrl input,
        pg_notes = cpg_notes input,
        pg_createdAt = now rt,
        pg_updatedAt = now rt\<rparr>) (\<lambda>rows.
     return_io (first rows))))"

definition updatePage_set :: "updatePage_args \<Rightarrow> runtime \<Rightarrow> page_row \<Rightarrow> page_row" where
  "updatePage_set input rt =
     (\<lambda>r. r\<lparr>pg_updatedAt := now rt\<rparr>) \<circ>
     spread (upg_notes input) (\<lambda>v r. r\<lparr>pg_notes := Some v\<rparr>) \<circ>
     spread (upg_thumbnailUrl input) (\<lambda>v r. r\<lparr>pg_thumbnailUrl := Some v\<rparr>) \<circ>
     spread (upg_title input) (\<lambda>v r. r\<lparr>pg_title := Some v\<rparr>) \<circ>
     spread (upg_pageNumber input) (\<lambda>v r. r\<lparr>pg_pageNumber := v\<rparr>)"

definition updatePage_handler ::
  "updatePage_args \<Rightarrow> action_context \<Rightarrow> runtime \<Rightarrow> page_row option io" where
  "updatePage_handler input context rt =
     await (requireUser context) (\<lambda>user.
     await (getOwnedPage (upg_id input) (upg_projectId input) (user_id user)) (\<lambda>_.
     await (update_pages (updatePage_set input rt) (\<lambda>r. pg_id r = upg_id input)) (\<lambda>rows.
     return_io (first rows))))"

definition deletePage_handler ::
  "deletePage_args \<Rightarrow> action_context \<Rightarrow> runtime \<Rightarrow> unit io" where
  "deletePage_handler input context rt =
     await (requireUser context) (\<lambda>user.
     await (getOwnedPage (dpg_id input) (dpg_projectId input) (user_id user)) (\<lambda>_.
     await (delete_pages (\<lambda>r. pg_id r = dpg_id input)) (\<lambda>_.
     await (delete_panels (\<lambda>r. pn_pageId r = dpg_id input)) (\<lambda>_.
     return_io ()))))"

definition listPages_handler ::
  "listPages_args \<Rightarrow> action_context \<Rightarrow> runtime \<Rightarrow> page_row listing io" where
  "listPages_handler input context rt =
     await (requireUser context) (\<lambda>user.
     await (getOwnedProject (lpg_projectId input) (user_id user)) (\<lambda>_.
     await (select_pages (\<lambda>r. pg_projectId r = lpg_projectId input)) (\<lambda>pages.
     return_io \<lparr>items = pages, total = length pages\<rparr>)))"

definition createPanel_handler ::
  "createPanel_args \<Rightarrow> action_context \<Rightarrow> runtime \<Rightarrow> panel_row option io" where
  "createPanel_handler input context rt =
     await (requireUser context) (\<lambda>user.
     await (getOwnedPage (cpn_pageId input) (cpn_projectId input) (user_id user)) (\<lambda>_.
     await (insert_panel
       \<lparr>pn_id = randomUUID rt,
        pn_pageId = cpn_pageId input,
        pn_panelIndex = cpn_panelIndex input,
        pn_layoutJson = cpn_layoutJson input,
        pn_description = cpn_description input,
        pn_dialogue = cpn_dialogue input,
        pn_caption = cpn_caption input,
        pn_soundEffects = cpn_soundEffects input,
        pn_createdAt = now rt\<rparr>) (\<lambda>rows.
     return_io (first rows))))"

text \<open>
  A panel has no \<open>updatedAt\<close>: its \<open>set\<close> object holds the supplied columns only. The
  schema of \<open>updatePanel\<close> lets an input through only when it supplies at least one of
  them, so the handler never runs with nothing to set.
\<close>

definition updatePanel_set :: "updatePanel_args \<Rightarrow> panel_row \<Rightarrow> panel_row" where
  "updatePanel_set input =
     spread (upn_soundEffects input) (\<lambda>v r. r\<lparr>pn_soundEffects := Some v\<rparr>) \<circ>
     spread (upn_caption input) (\<lambda>v r. r\<lparr>pn_caption := Some v\<rparr>) \<circ>
     spread (upn_dialogue input) (\<lambda>v r. r\<lparr>pn_dialogue := Some v\<rparr>) \<circ>
     spread (upn_description input) (\<lambda>v r. r\<lparr>pn_description := Some v\<rparr>) \<circ>
     spread (upn_layoutJson input) (\<lambda>v r. r\<lparr>pn_layoutJson := Some v\<rparr>) \<circ>
     spread (upn_panelIndex input) (\<lambda>v r. r\<lparr>pn_panelIndex := v\<rparr>)"

definition updatePanel_handler ::
  "updatePanel_args \<Rightarrow> action_context \<Rightarrow> runtime \<Rightarrow> panel_row option io" where
  "updatePanel_handler input context rt =
     await (requireUser context) (\<lambda>user.
     await (getOwnedPage (upn_pageId input) (upn_projectId input) (user_id user)) (\<lambda>_.
     await (select_panels (\<lambda>r. pn_id r = upn_id input)) (\<lambda>found.
     case first found of
       None \<Rightarrow> throw (ActionError NOT_FOUND ''Panel not found.'')
     | Some existing \<Rightarrow>
         await (update_panels (updatePanel_set input) (\<lambda>r. pn_id r = upn_id input)) (\<lambda>rows.
         return_io (first rows)))))"

definition deletePanel_handler ::
  "deletePanel_args \<Rightarrow> action_context \<Rightarrow> runtime \<Rightarrow> unit io" where
  "deletePanel_handler input context rt =
     await (requireUser context) (\<lambda>user.
     await (getOwnedPage (dpn_pageId input) (dpn_projectId input) (user_id user)) (\<lambda>_.
     await (delete_panels (\<lambda>r. pn_id r = dpn_id input)) (\<lambda>rowsAffected.
     if rowsAffected = 0
     then throw (ActionError NOT_FOUND ''Panel not found.'')
     else return_io ())))"

definition listPanels_handler ::
  "listPanels_args \<Rightarrow> action_context \<Rightarrow> runtime \<Rightarrow> panel_row listing io" where
  "listPanels_handler input context rt =
     await (requireUser context) (\<lambda>user.
     await (getOwnedPage (lpn_pageId input) (lpn_projectId input) (user_id user)) (\<lambda>_.
     await (select_panels (\<lambda>r. pn_pageId r = lpn_pageId input)) (\<lambda>panels.
     return_io \<lparr>items = panels, total = length panels\<rparr>)))"

subsection \<open>The actions of \<open>server\<close>\<close>

definition createProject where "createProject = defineAction createProject_input createProject_handler"
definition updateProject where "updateProject = defineAction updateProject_input updateProject_handler"
definition listProjects where "listProjects = defineAction listProjects_input listProjects_handler"
definition createPage where "createPage = defineAction createPage_input createPage_handler"
definition updatePage where "updatePage = defineAction updatePage_input updatePage_handler"
definition deletePage where "deletePage = defineAction deletePage_input deletePage_handler"
definition listPages where "listPages = defineAction listPages_input listPages_handler"
definition createPanel where "createPanel = defineAction createPanel_input createPanel_handler"
definition updatePanel where "updatePanel = defineAction updatePanel_input updatePanel_handler"
definition deletePanel where "deletePanel = defineAction deletePanel_input deletePanel_handler"
definition listPanels where "listPanels = defineAction listPanels_input listPanels_handler"

subsection \<open>Sequences of requests\<close>

text \<open>
  A request is a call of one action with its input, the context the authentication
  provider attached, and the values the handler will draw for \<open>crypto.randomUUID()\<close> and
  \<open>new Date()\<close>. Serving a request leaves a store behind whether the action returns or
  throws; a sequence of requests is served one after the other.
\<close>

datatype call =
  CreateProject createProject_args
  | UpdateProject updateProject_args
  | ListProjects
  | CreatePage createPage_args
  | UpdatePage updatePage_args
  | DeletePage deletePage_args
  | ListPages listPages_args
  | CreatePanel createPanel_args
  | UpdatePanel updatePanel_args
  | DeletePanel deletePanel_args
  | ListPanels listPanels_args

record request =
  req_call :: call
  req_context :: action_context
  req_runtime :: runtime

definition serve :: "request \<Rightarrow> store \<Rightarrow> store" where
  "serve rq s =
     (let context = req_context rq; rt = req_runtime rq in
      case req_call rq of
        CreateProject i \<Rightarrow> snd (createProject i context rt s)
      | UpdateProject i \<Rightarrow> snd (updateProject i context rt s)
      | ListProjects \<Rightarrow> snd (listProjects () context rt s)
      | CreatePage i \<Rightarrow> snd (createPage i context rt s)
      | UpdatePage i \<Rightarrow> snd (updatePage i context rt s)
      | DeletePage i \<Rightarrow> snd (deletePage i context rt s)
      | ListPages i \<Rightarrow> snd (listPages i context rt s)
      | CreatePanel i \<Rightarrow> snd (createPanel i context rt s)
      | UpdatePanel i \<Rightarrow> snd (updatePanel i context rt s)
      | DeletePanel i \<Rightarrow> snd (deletePanel i context rt s)
      | ListPanels i \<Rightarrow> snd (listPanels i context rt s))"

fun serve_all :: "request list \<Rightarrow> store \<Rightarrow> store" where
  "serve_all [] s = s"
| "serve_all (rq # rqs) s = serve_all rqs (serve rq s)"

text \<open>
  The signed-in user of a context, as \<open>requireUser\<close> reads it (\<open>locals?.user\<close>).
\<close>

definition caller :: "action_context \<Rightarrow> app_user option" where
  "caller context = (case locals context of None \<Rightarrow> None | Some l \<Rightarrow> user l)"

text \<open>
  Who created what: when a request is a \<open>createProject\<close> that returns a project, the
  id of that project together with the id of the user who made the request.
\<close>

definition created :: "request \<Rightarrow> store \<Rightarrow> (string \<times> string) option" where
  "created rq s =
     (case req_call rq of
        CreateProject i \<Rightarrow>
          (case (fst (createProject i (req_context rq) (req_runtime rq) s), caller (req_context rq)) of
             (Inr (Some project), Some u) \<Rightarrow> Some (prj_id project, user_id u)
           | _ \<Rightarrow> None)
      | _ \<Rightarrow> None)"

fun creators :: "request list \<Rightarrow> store \<Rightarrow> (string \<rightharpoonup> string) \<Rightarrow> (string \<rightharpoonup> string)" where
  "creators [] s m = m"
| "creators (rq # rqs) s m =
     creators rqs (serve rq s)
       (case created rq s of None \<Rightarrow> m | Some (projectId, userId) \<Rightarrow> m(projectId \<mapsto> userId))"

subsection \<open>A small studio\<close>

text \<open>
  Two users with one project, one page and one panel each, and a visitor who is not
  signed in. The concrete instances below are evaluated on this store.
\<close>

definition alice :: action_context where
  "alice = \<lparr>locals = Some \<lparr>user = Some \<lparr>user_id = ''alice''\<rparr>\<rparr>\<rparr>"

definition bob :: action_context where
  "bob = \<lparr>locals = Some \<lparr>user = Some \<lparr>user_id = ''bob''\<rparr>\<rparr>\<rparr>"

definition visitor :: action_context where
  "visitor = \<lparr>locals = Some \<lparr>user = None\<rparr>\<rparr>"

definition clock :: runtime where
  "clock = \<lparr>randomUUID = ''u9'', now = 900\<rparr>"

definition studio :: store where
  "studio =
     \<lparr>projects =
        [\<lparr>prj_id = ''p1'', prj_userId = ''alice'', prj_title = ''Issue 1'',
          prj_description = Some ''pilot'', prj_genre = Some ''noir'', prj_format = None,
          prj_targetAudience = None, prj_createdAt = 100, prj_updatedAt = 100\<rparr>,
         \<lparr>prj_id = ''p2'', prj_userId = ''bob'', prj_title = ''Robots'',
          prj_description = None, prj_genre = None, prj_format = Some ''webtoon'',
          prj_targetAudience = None, prj_createdAt = 200, prj_updatedAt = 200\<rparr>],
      pages =
        [\<lparr>pg_id = ''g1'', pg_projectId = ''p1'', pg_pageNumber = 1, pg_title = Some ''Cover'',
          pg_thumbnailUrl = None, pg_notes = Some ''rain'', pg_createdAt = 110,
          pg_updatedAt = 110\<rparr>,
         \<lparr>pg_id = ''g2'', pg_projectId = ''p2'', pg_pageNumber = 1, pg_title = None,
          pg_thumbnailUrl = None, pg_notes = None, pg_createdAt = 210, pg_updatedAt = 210\<rparr>],
      panels =
        [\<lparr>pn_id = ''n1'', pn_pageId = ''g1'', pn_panelIndex = 0, pn_layoutJson = None,
          pn_description = Some ''street'', pn_dialogue = Some ''Hello'', pn_caption = None,
          pn_soundEffects = None, pn_createdAt = 120\<rparr>,
         \<lparr>pn_id = ''n2'', pn_pageId = ''g2'', pn_panelIndex = 0, pn_layoutJson = None,
          pn_description = None, pn_dialogue = Some ''Beep'', pn_caption = None,
          pn_soundEffects = Some ''BOOM'', pn_createdAt = 220\<rparr>],
      statements = []\<rparr>"

text \<open>
  A session in the studio: bob creates a project (the id drawn is \<open>u9\<close>), alice
  tries to retitle it, alice creates a project for which the same id is drawn again, and
  bob sets the genre of the new project.
\<close>

definition session :: "request list" where
  "session =
     [\<lparr>req_call = CreateProject
          \<lparr>cpj_title = ''Zine'', cpj_description = None, cpj_genre = None, cpj_format = None,
           cpj_targetAudience = None\<rparr>,
        req_context = bob, req_runtime = \<lparr>randomUUID = ''u9'', now = 900\<rparr>\<rparr>,
      \<lparr>req_call = UpdateProject
          \<lparr>upj_id = ''u9'', upj_title = Some ''Taken'', upj_description = None, upj_genre = None,
           upj_format = None, upj_targetAudience = None\<rparr>,
        req_context = alice, req_runtime = \<lparr>randomUUID = ''u10'', now = 910\<rparr>\<rparr>,
      \<lparr>req_call = CreateProject
          \<lparr>cpj_title = ''Taken'', cpj_description = None, cpj_genre = None, cpj_format = None,
           cpj_targetAudience = None\<rparr>,
        req_context = alice, req_runtime = \<lparr>randomUUID = ''u9'', now = 920\<rparr>\<rparr>,
      \<lparr>req_call = UpdateProject
          \<lparr>upj_id = ''u9'', upj_title = None, upj_description = None, upj_genre = Some ''satire'',
           upj_format = None, upj_targetAudience = None\<rparr>,
        req_context = bob, req_runtime = \<lparr>randomUUID = ''u11'', now = 930\<rparr>\<rparr>]"

subsection \<open>Helper facts\<close>

text \<open>
  How the gate, the sequencing of awaited steps, the input validation and the two
  resolvers compute; the later sections use these instead of unfolding the definitions.
\<close>

lemma requireUser_caller:
  "requireUser context =
     (case caller context of
        None \<Rightarrow> throw (ActionError UNAUTHORIZED ''You must be signed in to perform this action.'')
      | Some u \<Rightarrow> return_io u)"
  by (simp add: requireUser_def caller_def)

lemma requireUser_Some: "caller ctx = Some u \<Longrightarrow> requireUser ctx = return_io u"
  by (simp add: requireUser_caller)

lemma await_throw: "await (throw e) k = throw e"
  by (simp add: await_def throw_def)

lemma await_return: "await (return_io x) k = k x"
  by (simp add: await_def return_io_def)

lemma await_Inr:
  assumes "await m k s = (Inr out, s')"
  obtains x s1 where "m s = (Inr x, s1)" and "k x s1 = (Inr out, s')"
proof (cases "m s")
  case (Pair res s1)
  show thesis
  proof (cases res)
    case (Inl e)
    with Pair assms show thesis
      by (simp add: await_def)
  next
    case (Inr x)
    with Pair assms have "k x s1 = (Inr out, s')"
      by (simp add: await_def)
    with Pair Inr that show thesis
      by simp
  qed
qed

lemma handler_Inr:
  assumes "await (requireUser ctx) k s = (Inr out, s')"
  obtains u where "caller ctx = Some u" and "k u s = (Inr out, s')"
proof (cases "caller ctx")
  case None
  with assms show thesis
    by (simp add: requireUser_caller await_def throw_def)
next
  case (Some u)
  with assms have "k u s = (Inr out, s')"
    by (simp add: requireUser_caller await_def return_io_def)
  with Some that show thesis
    by simp
qed

lemma accepted: "input i = [] \<Longrightarrow> defineAction input handler i ctx rt = handler i ctx rt"
  by (simp add: defineAction_def)

lemma rejected:
  "input i \<noteq> [] \<Longrightarrow>
   defineAction input handler i ctx rt s = (Inl (ActionInputError (input i)), s)"
  by (cases "input i") (simp_all add: defineAction_def throw_def)

lemma action_Inr:
  assumes "defineAction input handler i ctx rt s = (Inr out, s')"
  shows "handler i ctx rt s = (Inr out, s')"
  using assms by (cases "input i") (simp_all add: defineAction_def throw_def)

lemma issue_tables:
  "projects (issue st s) = projects s"
  "pages (issue st s) = pages s"
  "panels (issue st s) = panels s"
  "statements (issue st s) = statements s @ [st]"
  by (simp_all add: issue_def)

lemma first_None: "first xs = None \<longleftrightarrow> xs = []"
  by (cases xs) (simp_all add: first_def)

lemma first_Some: "first xs = Some x \<longleftrightarrow> (\<exists>ys. xs = x # ys)"
  by (cases xs) (auto simp: first_def)

lemma first_filter_None: "first (filter P xs) = None \<longleftrightarrow> (\<forall>x \<in> set xs. \<not> P x)"
  by (simp add: first_None filter_empty_conv)

lemma first_filter_Some:
  assumes "first (filter P xs) = Some x"
  shows "x \<in> set xs \<and> P x"
proof -
  from assms obtain ys where "filter P xs = x # ys"
    by (auto simp: first_Some)
  then have "x \<in> set (filter P xs)"
    by simp
  then show ?thesis
    by simp
qed

lemma first_map_filter:
  assumes "x \<in> set xs" and "P x"
  shows "\<exists>y \<in> set xs. P y \<and> first (map f (filter P xs)) = Some (f y)"
proof -
  from assms have "filter P xs \<noteq> []"
    by (auto simp: filter_empty_conv)
  then obtain y ys where found: "filter P xs = y # ys"
    by (cases "filter P xs") auto
  then have "y \<in> set (filter P xs)"
    by simp
  then have "y \<in> set xs" and "P y"
    by simp_all
  moreover from found have "first (map f (filter P xs)) = Some (f y)"
    by (simp add: first_def)
  ultimately show ?thesis
    by blast
qed

lemma list_all2_map_self:
  "(\<And>x. x \<in> set xs \<Longrightarrow> P x (f x)) \<Longrightarrow> list_all2 P xs (map f xs)"
  by (simp add: list_all2_map2 list_all2_same)

lemma getOwnedProject_run:
  "getOwnedProject projectId userId s =
     (case first (filter (\<lambda>r. prj_id r = projectId \<and> prj_userId r = userId) (projects s)) of
        None \<Rightarrow> Inl (ActionError NOT_FOUND ''Project not found.'')
      | Some project \<Rightarrow> Inr project,
      issue (SELECT ComicProjects) s)"
  by (simp add: getOwnedProject_def await_def select_projects_def throw_def return_io_def
      split: option.splits)

lemma getOwnedPage_run:
  "getOwnedPage pageId projectId userId s =
     (case first (filter (\<lambda>r. prj_id r = projectId \<and> prj_userId r = userId) (projects s)) of
        None \<Rightarrow> (Inl (ActionError NOT_FOUND ''Project not found.''), issue (SELECT ComicProjects) s)
      | Some project \<Rightarrow>
          (case first (filter (\<lambda>r. pg_id r = pageId \<and> pg_projectId r = projectId) (pages s)) of
             None \<Rightarrow> Inl (ActionError NOT_FOUND ''Page not found.'')
           | Some page \<Rightarrow> Inr page,
           issue (SELECT ComicPages) (issue (SELECT ComicProjects) s)))"
  by (simp add: getOwnedPage_def getOwnedProject_run await_def select_pages_def throw_def
      return_io_def issue_tables split: option.splits)

lemma getOwnedProject_Inr:
  assumes "fst (getOwnedProject projectId userId s) = Inr project"
  shows "getOwnedProject projectId userId s = (Inr project, issue (SELECT ComicProjects) s)"
    and "first (filter (\<lambda>r. prj_id r = projectId \<and> prj_userId r = userId) (projects s)) = Some project"
  using assms by (auto simp: getOwnedProject_run split: option.splits)

lemma getOwnedPage_Inr:
  assumes "fst (getOwnedPage pageId projectId userId s) = Inr page"
  shows "getOwnedPage pageId projectId userId s =
           (Inr page, issue (SELECT ComicPages) (issue (SELECT ComicProjects) s))"
    and "first (filter (\<lambda>r. prj_id r = projectId \<and> prj_userId r = userId) (projects s)) \<noteq> None"
    and "first (filter (\<lambda>r. pg_id r = pageId \<and> pg_projectId r = projectId) (pages s)) = Some page"
  using assms by (auto simp: getOwnedPage_run split: option.splits)

text \<open>The callers of the studio.\<close>

lemma caller_simps:
  "caller alice = Some \<lparr>user_id = ''alice''\<rparr>"
  "caller bob = Some \<lparr>user_id = ''bob''\<rparr>"
  "caller visitor = None"
  by (simp_all add: caller_def alice_def bob_def visitor_def)

lemmas studio_eval =
  caller_simps studio_def clock_def requireUser_caller getOwnedProject_def getOwnedPage_def
  await_def return_io_def throw_def first_def issue_def
  select_projects_def select_pages_def select_panels_def
  delete_pages_def delete_panels_def

lemmas action_eval =
  createProject_def updateProject_def listProjects_def defineAction_def
  createProject_input_def updateProject_input_def listProjects_input_def
  updateProject_refine_def min1_def optional_def refine_def
  createProject_handler_def updateProject_handler_def listProjects_handler_def
  insert_project_def update_projects_def updateProject_set_def spread_def

subsection \<open>The authorization gate\<close>

text \<open>
  Every handler starts with \<open>requireUser\<close>: when the request context carries no user, the
  handler throws \<open>UNAUTHORIZED\<close> before it issues any statement.
\<close>

lemma handlers_unauthenticated:
  assumes "caller ctx = None"
  shows "createProject_handler newProject ctx rt s =
       (Inl (ActionError UNAUTHORIZED ''You must be signed in to perform this action.''), s)
   \<and> updateProject_handler projectUpdate ctx rt s =
       (Inl (ActionError UNAUTHORIZED ''You must be signed in to perform this action.''), s)
   \<and> listProjects_handler noInput ctx rt s =
       (Inl (ActionError UNAUTHORIZED ''You must be signed in to perform this action.''), s)
   \<and> createPage_handler newPage ctx rt s =
       (Inl (ActionError UNAUTHORIZED ''You must be signed in to perform this action.''), s)
   \<and> updatePage_handler pageUpdate ctx rt s =
       (Inl (ActionError UNAUTHORIZED ''You must be signed in to perform this action.''), s)
   \<and> deletePage_handler pageDelete ctx rt s =
       (Inl (ActionError UNAUTHORIZED ''You must be signed in to perform this action.''), s)
   \<and> listPages_handler pageList ctx rt s =
       (Inl (ActionError UNAUTHORIZED ''You must be signed in to perform this action.''), s)
   \<and> createPanel_handler newPanel ctx rt s =
       (Inl (ActionError UNAUTHORIZED ''You must be signed in to perform this action.''), s)
   \<and> updatePanel_handler panelUpdate ctx rt s =
       (Inl (ActionError UNAUTHORIZED ''You must be signed in to perform this action.''), s)
   \<and> deletePanel_handler panelDelete ctx rt s =
       (Inl (ActionError UNAUTHORIZED ''You must be signed in to perform this action.''), s)
   \<and> listPanels_handler panelList ctx rt s =
       (Inl (ActionError UNAUTHORIZED ''You must be signed in to perform this action.''), s)"
proof -
  from assms have gate:
    "requireUser ctx = throw (ActionError UNAUTHORIZED ''You must be signed in to perform this action.'')"
    by (simp add: requireUser_caller)
  show ?thesis
    unfolding createProject_handler_def updateProject_handler_def listProjects_handler_def
      createPage_handler_def updatePage_handler_def deletePage_handler_def listPages_handler_def
      createPanel_handler_def updatePanel_handler_def deletePanel_handler_def listPanels_handler_def
      gate await_throw
    by (simp add: throw_def)
qed

lemma defineAction_gate:
  assumes "handler i ctx rt s = (Inl e, s)"
  shows "defineAction input handler i ctx rt s =
           (Inl (if input i = [] then e else ActionInputError (input i)), s)"
  using assms by (cases "input i") (simp_all add: defineAction_def throw_def)

text \<open>
  Claim C1, as the code has it. The input of an operation is validated before its handler
  runs. When the request context carries no user, each of the eleven operations leaves
  the store exactly as it was, no row inserted, updated or deleted and no statement
  issued; it fails with \<open>UNAUTHORIZED\<close> when its input passes the schema, and with the
  validation error when it does not.
\<close>

theorem unauthenticated_rejected:
  assumes "caller ctx = None"
  shows "createProject newProject ctx rt s =
       (Inl (if createProject_input newProject = []
             then ActionError UNAUTHORIZED ''You must be signed in to perform this action.''
             else ActionInputError (createProject_input newProject)), s)
   \<and> updateProject projectUpdate ctx rt s =
       (Inl (if updateProject_input projectUpdate = []
             then ActionError UNAUTHORIZED ''You must be signed in to perform this action.''
             else ActionInputError (updateProject_input projectUpdate)), s)
   \<and> listProjects noInput ctx rt s =
       (Inl (if listProjects_input noInput = []
             then ActionError UNAUTHORIZED ''You must be signed in to perform this action.''
             else ActionInputError (listProjects_input noInput)), s)
   \<and> createPage newPage ctx rt s =
       (Inl (if createPage_input newPage = []
             then ActionError UNAUTHORIZED ''You must be signed in to perform this action.''
             else ActionInputError (createPage_input newPage)), s)
   \<and> updatePage pageUpdate ctx rt s =
       (Inl (if updatePage_input pageUpdate = []
             then ActionError UNAUTHORIZED ''You must be signed in to perform this action.''
             else ActionInputError (updatePage_input pageUpdate)), s)
   \<and> deletePage pageDelete ctx rt s =
       (Inl (if deletePage_input pageDelete = []
             then ActionError UNAUTHORIZED ''You must be signed in to perform this action.''
             else ActionInputError (deletePage_input pageDelete)), s)
   \<and> listPages pageList ctx rt s =
       (Inl (if listPages_input pageList = []
             then ActionError UNAUTHORIZED ''You must be signed in to perform this action.''
             else ActionInputError (listPages_input pageList)), s)
   \<and> createPanel newPanel ctx rt s =
       (Inl (if createPanel_input newPanel = []
             then ActionError UNAUTHORIZED ''You must be signed in to perform this action.''
             else ActionInputError (createPanel_input newPanel)), s)
   \<and> updatePanel panelUpdate ctx rt s =
       (Inl (if updatePanel_input panelUpdate = []
             then ActionError UNAUTHORIZED ''You must be signed in to perform this action.''
             else ActionInputError (updatePanel_input panelUpdate)), s)
   \<and> deletePanel panelDelete ctx rt s =
       (Inl (if deletePanel_input panelDelete = []
             then ActionError UNAUTHORIZED ''You must be signed in to perform this action.''
             else ActionInputError (deletePanel_input panelDelete)), s)
   \<and> listPanels panelList ctx rt s =
       (Inl (if listPanels_input panelList = []
             then ActionError UNAUTHORIZED ''You must be signed in to perform this action.''
             else ActionInputError (listPanels_input panelList)), s)"
  unfolding createProject_def updateProject_def listProjects_def createPage_def updatePage_def
    deletePage_def listPages_def createPanel_def updatePanel_def deletePanel_def listPanels_def
  by (intro conjI defineAction_gate) (simp_all add: handlers_unauthenticated [OF assms])

text \<open>
  The visitor of the studio tries to delete a page, to create a project and to retitle
  one.
\<close>

theorem unauthenticated_rejected_witness:
  "caller visitor = None
   \<and> deletePage \<lparr>dpg_id = ''g1'', dpg_projectId = ''p1''\<rparr> visitor clock studio
       = (Inl (ActionError UNAUTHORIZED ''You must be signed in to perform this action.''), studio)
   \<and> createProject
         \<lparr>cpj_title = ''Issue 2'', cpj_description = None, cpj_genre = None, cpj_format = None,
          cpj_targetAudience = None\<rparr> visitor clock studio
       = (Inl (ActionError UNAUTHORIZED ''You must be signed in to perform this action.''), studio)
   \<and> updateProject
         \<lparr>upj_id = ''p1'', upj_title = Some ''Stolen'', upj_description = None, upj_genre = None,
          upj_format = None, upj_targetAudience = None\<rparr> visitor clock studio
       = (Inl (ActionError UNAUTHORIZED ''You must be signed in to perform this action.''), studio)"
  using unauthenticated_rejected [where ctx = visitor and rt = clock and s = studio
      and pageDelete = "\<lparr>dpg_id = ''g1'', dpg_projectId = ''p1''\<rparr>"
      and newProject = "\<lparr>cpj_title = ''Issue 2'', cpj_description = None, cpj_genre = None,
          cpj_format = None, cpj_targetAudience = None\<rparr>"
      and projectUpdate = "\<lparr>upj_id = ''p1'', upj_title = Some ''Stolen'', upj_description = None,
          upj_genre = None, upj_format = None, upj_targetAudience = None\<rparr>"]
  by (simp add: caller_simps deletePage_input_def createProject_input_def updateProject_input_def
      updateProject_refine_def min1_def optional_def refine_def)

text \<open>
  The claim as the spec states it fails on an input the schema rejects: the visitor's
  \<open>updateProject\<close> that names project \<open>p1\<close> and supplies no field is answered with the
  validation error, not with \<open>UNAUTHORIZED\<close>.
\<close>

theorem unauthenticated_invalid_input_counterexample:
  "caller visitor = None
   \<and> updateProject
         \<lparr>upj_id = ''p1'', upj_title = None, upj_description = None, upj_genre = None,
          upj_format = None, upj_targetAudience = None\<rparr> visitor clock studio
       = (Inl (ActionInputError [custom ''At least one field must be provided to update.'']), studio)
   \<and> fst (updateProject
         \<lparr>upj_id = ''p1'', upj_title = None, upj_description = None, upj_genre = None,
          upj_format = None, upj_targetAudience = None\<rparr> visitor clock studio)
       \<noteq> Inl (ActionError UNAUTHORIZED ''You must be signed in to perform this action.'')"
  by (simp add: caller_simps updateProject_def defineAction_def updateProject_input_def
      updateProject_refine_def min1_def optional_def refine_def throw_def)

subsection \<open>The ownership chain\<close>

text \<open>
  Claim C3. For every project id and user id, when no row of \<open>ComicProjects\<close> has both
  that id and that owner, \<open>getOwnedProject\<close> throws \<open>NOT_FOUND\<close> with the message
  "Project not found." after its single select. The hypothesis does not say whether a
  row with that id exists under another owner, and the result does not depend on it: the
  two cases are the same error and the same store.
\<close>

theorem getOwnedProject_not_owned:
  assumes "\<forall>r \<in> set (projects s). \<not> (prj_id r = projectId \<and> prj_userId r = userId)"
  shows "getOwnedProject projectId userId s =
           (Inl (ActionError NOT_FOUND ''Project not found.''), issue (SELECT ComicProjects) s)"
proof -
  from assms
  have "first (filter (\<lambda>r. prj_id r = projectId \<and> prj_userId r = userId) (projects s)) = None"
    by (simp only: first_filter_None)
  then show ?thesis
    by (simp add: getOwnedProject_run)
qed

text \<open>
  In the studio, alice asks for bob's project \<open>p2\<close> and for a project \<open>p7\<close> that
  does not exist.
\<close>

theorem getOwnedProject_not_owned_witness:
  "getOwnedProject ''p2'' ''alice'' studio =
     (Inl (ActionError NOT_FOUND ''Project not found.''), issue (SELECT ComicProjects) studio)
   \<and> getOwnedProject ''p7'' ''alice'' studio =
     (Inl (ActionError NOT_FOUND ''Project not found.''), issue (SELECT ComicProjects) studio)
   \<and> ''p2'' \<in> prj_id ` set (projects studio) \<and> ''p7'' \<notin> prj_id ` set (projects studio)"
  using getOwnedProject_not_owned [of studio "''p2''" "''alice''"]
    getOwnedProject_not_owned [of studio "''p7''" "''alice''"]
  by (simp add: studio_def)

text \<open>
  Claim C4. \<open>getOwnedPage\<close> resolves the project first: when \<open>getOwnedProject\<close>
  throws, \<open>getOwnedPage\<close> throws the same error and leaves the same store (no select
  on \<open>ComicPages\<close> is issued). When the project resolves and no row of \<open>ComicPages\<close>
  has both the given id and the given project id, in particular when the page exists under
  another project, it throws \<open>NOT_FOUND\<close> with the message "Page not found.".
\<close>

theorem getOwnedPage_chain:
  "(getOwnedProject projectId userId s = (Inl e, s') \<longrightarrow>
      getOwnedPage pageId projectId userId s = (Inl e, s'))
   \<and> (getOwnedProject projectId userId s = (Inr project, s') \<longrightarrow>
      (\<forall>r \<in> set (pages s). \<not> (pg_id r = pageId \<and> pg_projectId r = projectId)) \<longrightarrow>
      getOwnedPage pageId projectId userId s =
        (Inl (ActionError NOT_FOUND ''Page not found.''), issue (SELECT ComicPages) s'))"
proof (intro conjI impI)
  assume "getOwnedProject projectId userId s = (Inl e, s')"
  then show "getOwnedPage pageId projectId userId s = (Inl e, s')"
    by (simp add: getOwnedPage_def await_def)
next
  assume ok: "getOwnedProject projectId userId s = (Inr project, s')"
    and none: "\<forall>r \<in> set (pages s). \<not> (pg_id r = pageId \<and> pg_projectId r = projectId)"
  from ok have s': "s' = issue (SELECT ComicProjects) s"
    by (simp add: getOwnedProject_run)
  from none
  have "first (filter (\<lambda>r. pg_id r = pageId \<and> pg_projectId r = projectId) (pages s)) = None"
    by (simp only: first_filter_None)
  with ok show "getOwnedPage pageId projectId userId s =
        (Inl (ActionError NOT_FOUND ''Page not found.''), issue (SELECT ComicPages) s')"
    by (simp add: getOwnedPage_def await_def select_pages_def throw_def s' issue_tables)
qed

text \<open>
  In the studio, alice asks for bob's page \<open>g2\<close> under alice's project \<open>p1\<close>, and
  under bob's project \<open>p2\<close>.
\<close>

theorem getOwnedPage_chain_witness:
  "getOwnedPage ''g2'' ''p1'' ''alice'' studio =
     (Inl (ActionError NOT_FOUND ''Page not found.''),
      issue (SELECT ComicPages) (issue (SELECT ComicProjects) studio))
   \<and> getOwnedPage ''g2'' ''p2'' ''alice'' studio =
     (Inl (ActionError NOT_FOUND ''Project not found.''), issue (SELECT ComicProjects) studio)
   \<and> ''g2'' \<in> pg_id ` set (pages studio)"
  using getOwnedPage_chain [where projectId = "''p1''" and userId = "''alice''" and s = studio
      and s' = "issue (SELECT ComicProjects) studio" and project = "hd (projects studio)"
      and pageId = "''g2''"]
    getOwnedPage_chain [where projectId = "''p2''" and userId = "''alice''" and s = studio
      and s' = "issue (SELECT ComicProjects) studio"
      and e = "ActionError NOT_FOUND ''Project not found.''" and pageId = "''g2''"]
  by (simp add: getOwnedProject_run first_def studio_def)

subsection \<open>Validation of updates\<close>

text \<open>
  Claim C7. A call of \<open>updateProject\<close>, \<open>updatePage\<close> or \<open>updatePanel\<close> that
  supplies none of the operation's mutable fields is rejected by the input validation:
  the call throws an input error whose issues include the message "At least one field
  must be provided to update.", and the store is left exactly as it was, journal of
  statements included: no table is read or written. This holds whoever the caller is.
\<close>

theorem empty_update_rejected:
  "(upj_title i = None \<and> upj_description i = None \<and> upj_genre i = None \<and> upj_format i = None
      \<and> upj_targetAudience i = None \<longrightarrow>
      (\<exists>issues. updateProject i ctx rt s = (Inl (ActionInputError issues), s)
         \<and> custom ''At least one field must be provided to update.'' \<in> set issues))
   \<and> (upg_pageNumber j = None \<and> upg_title j = None \<and> upg_thumbnailUrl j = None \<and> upg_notes j = None \<longrightarrow>
      (\<exists>issues. updatePage j ctx rt s = (Inl (ActionInputError issues), s)
         \<and> custom ''At least one field must be provided to update.'' \<in> set issues))
   \<and> (upn_panelIndex k = None \<and> upn_layoutJson k = None \<and> upn_description k = None
      \<and> upn_dialogue k = None \<and> upn_caption k = None \<and> upn_soundEffects k = None \<longrightarrow>
      (\<exists>issues. updatePanel k ctx rt s = (Inl (ActionInputError issues), s)
         \<and> custom ''At least one field must be provided to update.'' \<in> set issues))"
proof (intro conjI impI)
  assume "upj_title i = None \<and> upj_description i = None \<and> upj_genre i = None \<and> upj_format i = None
      \<and> upj_targetAudience i = None"
  then have "custom ''At least one field must be provided to update.'' \<in> set (updateProject_input i)"
    by (simp add: updateProject_input_def updateProject_refine_def refine_def)
  moreover from this have "updateProject_input i \<noteq> []"
    by auto
  ultimately show "\<exists>issues. updateProject i ctx rt s = (Inl (ActionInputError issues), s)
         \<and> custom ''At least one field must be provided to update.'' \<in> set issues"
    by (simp add: updateProject_def rejected)
next
  assume "upg_pageNumber j = None \<and> upg_title j = None \<and> upg_thumbnailUrl j = None \<and> upg_notes j = None"
  then have "custom ''At least one field must be provided to update.'' \<in> set (updatePage_input j)"
    by (simp add: updatePage_input_def updatePage_refine_def refine_def)
  moreover from this have "updatePage_input j \<noteq> []"
    by auto
  ultimately show "\<exists>issues. updatePage j ctx rt s = (Inl (ActionInputError issues), s)
         \<and> custom ''At least one field must be provided to update.'' \<in> set issues"
    by (simp add: updatePage_def rejected)
next
  assume "upn_panelIndex k = None \<and> upn_layoutJson k = None \<and> upn_description k = None
      \<and> upn_dialogue k = None \<and> upn_caption k = None \<and> upn_soundEffects k = None"
  then have "custom ''At least one field must be provided to update.'' \<in> set (updatePanel_input k)"
    by (simp add: updatePanel_input_def updatePanel_refine_def refine_def)
  moreover from this have "updatePanel_input k \<noteq> []"
    by auto
  ultimately show "\<exists>issues. updatePanel k ctx rt s = (Inl (ActionInputError issues), s)
         \<and> custom ''At least one field must be provided to update.'' \<in> set issues"
    by (simp add: updatePanel_def rejected)
qed

text \<open>In the studio, alice sends three updates of alice's own rows with no field to change.\<close>

theorem empty_update_rejected_witness:
  "updateProject
     \<lparr>upj_id = ''p1'', upj_title = None, upj_description = None, upj_genre = None,
      upj_format = None, upj_targetAudience = None\<rparr> alice clock studio
     = (Inl (ActionInputError [custom ''At least one field must be provided to update.'']), studio)
   \<and> updatePage
     \<lparr>upg_id = ''g1'', upg_projectId = ''p1'', upg_pageNumber = None, upg_title = None,
      upg_thumbnailUrl = None, upg_notes = None\<rparr> alice clock studio
     = (Inl (ActionInputError [custom ''At least one field must be provided to update.'']), studio)
   \<and> updatePanel
     \<lparr>upn_id = ''n1'', upn_pageId = ''g1'', upn_projectId = ''p1'', upn_panelIndex = None,
      upn_layoutJson = None, upn_description = None, upn_dialogue = None,
      upn_caption = None, upn_soundEffects = None\<rparr> alice clock studio
     = (Inl (ActionInputError [custom ''At least one field must be provided to update.'']), studio)"
  using empty_update_rejected [where
      i = "\<lparr>upj_id = ''p1'', upj_title = None, upj_description = None, upj_genre = None,
        upj_format = None, upj_targetAudience = None\<rparr>"
      and j = "\<lparr>upg_id = ''g1'', upg_projectId = ''p1'', upg_pageNumber = None, upg_title = None,
        upg_thumbnailUrl = None, upg_notes = None\<rparr>"
      and k = "\<lparr>upn_id = ''n1'', upn_pageId = ''g1'', upn_projectId = ''p1'', upn_panelIndex = None,
        upn_layoutJson = None, upn_description = None, upn_dialogue = None,
        upn_caption = None, upn_soundEffects = None\<rparr>"
      and ctx = alice and rt = clock and s = studio]
  by (simp add: updateProject_def updatePage_def updatePanel_def defineAction_def
      updateProject_input_def updatePage_input_def updatePanel_input_def
      updateProject_refine_def updatePage_refine_def updatePanel_refine_def
      refine_def min1_def optional_def throw_def)

subsection \<open>Partial updates\<close>

lemma updateProject_handler_run:
  assumes "caller ctx = Some u"
    and "fst (getOwnedProject (upj_id input) (user_id u) s) = Inr project"
  shows "updateProject_handler input ctx rt s =
     (Inr (first (map (updateProject_set input rt) (filter (\<lambda>r. prj_id r = upj_id input) (projects s)))),
      s\<lparr>projects := map (\<lambda>r. if prj_id r = upj_id input then updateProject_set input rt r else r) (projects s),
        statements := statements s @ [SELECT ComicProjects, UPDATE ComicProjects]\<rparr>)"
  by (simp add: updateProject_handler_def requireUser_Some [OF assms(1)] await_return
      getOwnedProject_Inr(1) [OF assms(2)] await_def update_projects_def
      issue_def return_io_def)

lemma updatePage_handler_run:
  assumes "caller ctx = Some u"
    and "fst (getOwnedPage (upg_id input) (upg_projectId input) (user_id u) s) = Inr page"
  shows "updatePage_handler input ctx rt s =
     (Inr (first (map (updatePage_set input rt) (filter (\<lambda>r. pg_id r = upg_id input) (pages s)))),
      s\<lparr>pages := map (\<lambda>r. if pg_id r = upg_id input then updatePage_set input rt r else r) (pages s),
        statements := statements s @ [SELECT ComicProjects, SELECT ComicPages, UPDATE ComicPages]\<rparr>)"
  by (simp add: updatePage_handler_def requireUser_Some [OF assms(1)] await_return
      getOwnedPage_Inr(1) [OF assms(2)] await_def update_pages_def
      issue_def return_io_def)

lemma updatePanel_handler_run:
  assumes "caller ctx = Some u"
    and "fst (getOwnedPage (upn_pageId input) (upn_projectId input) (user_id u) s) = Inr page"
  shows "updatePanel_handler input ctx rt s =
     (case first (filter (\<lambda>r. pn_id r = upn_id input) (panels s)) of
        None \<Rightarrow>
          (Inl (ActionError NOT_FOUND ''Panel not found.''),
           s\<lparr>statements := statements s @ [SELECT ComicProjects, SELECT ComicPages, SELECT ComicPanels]\<rparr>)
      | Some existing \<Rightarrow>
          (Inr (first (map (updatePanel_set input) (filter (\<lambda>r. pn_id r = upn_id input) (panels s)))),
           s\<lparr>panels := map (\<lambda>r. if pn_id r = upn_id input then updatePanel_set input r else r) (panels s),
             statements := statements s @
               [SELECT ComicProjects, SELECT ComicPages, SELECT ComicPanels, UPDATE ComicPanels]\<rparr>))"
  by (simp add: updatePanel_handler_def requireUser_Some [OF assms(1)] await_return
      getOwnedPage_Inr(1) [OF assms(2)] await_def select_panels_def update_panels_def
      issue_def return_io_def throw_def split: option.splits)

lemma updateProject_Inr:
  assumes "updateProject i ctx rt s = (Inr out, s')"
  shows "projects s' = map (\<lambda>r. if prj_id r = upj_id i then updateProject_set i rt r else r) (projects s)"
    and "pages s' = pages s" and "panels s' = panels s"
    and "\<exists>r \<in> set (projects s). prj_id r = upj_id i \<and> out = Some (updateProject_set i rt r)"
proof -
  from assms have "updateProject_handler i ctx rt s = (Inr out, s')"
    unfolding updateProject_def by (rule action_Inr)
  then obtain u where u: "caller ctx = Some u"
    and rest: "await (getOwnedProject (upj_id i) (user_id u))
       (\<lambda>_. await (update_projects (updateProject_set i rt) (\<lambda>r. prj_id r = upj_id i))
          (\<lambda>rows. return_io (first rows))) s = (Inr out, s')"
    unfolding updateProject_handler_def by (rule handler_Inr)
  from rest obtain project s1 where "getOwnedProject (upj_id i) (user_id u) s = (Inr project, s1)"
    by (rule await_Inr)
  then have owned: "fst (getOwnedProject (upj_id i) (user_id u) s) = Inr project"
    by simp
  note run = updateProject_handler_run [OF u owned, of rt]
  from run \<open>updateProject_handler i ctx rt s = (Inr out, s')\<close>
  have out: "out = first (map (updateProject_set i rt) (filter (\<lambda>r. prj_id r = upj_id i) (projects s)))"
    and s': "s' = s\<lparr>projects := map (\<lambda>r. if prj_id r = upj_id i then updateProject_set i rt r else r) (projects s),
        statements := statements s @ [SELECT ComicProjects, UPDATE ComicProjects]\<rparr>"
    by simp_all
  from s' show "projects s' = map (\<lambda>r. if prj_id r = upj_id i then updateProject_set i rt r else r) (projects s)"
    and "pages s' = pages s" and "panels s' = panels s"
    by simp_all
  from first_filter_Some [OF getOwnedProject_Inr(2) [OF owned]]
  have "project \<in> set (projects s)" and "prj_id project = upj_id i"
    by simp_all
  from first_map_filter [of project "projects s" "\<lambda>r. prj_id r = upj_id i", OF this]
  show "\<exists>r \<in> set (projects s). prj_id r = upj_id i \<and> out = Some (updateProject_set i rt r)"
    unfolding out by blast
qed

lemma updatePage_Inr:
  assumes "updatePage i ctx rt s = (Inr out, s')"
  shows "pages s' = map (\<lambda>r. if pg_id r = upg_id i then updatePage_set i rt r else r) (pages s)"
    and "projects s' = projects s" and "panels s' = panels s"
    and "\<exists>r \<in> set (pages s). pg_id r = upg_id i \<and> out = Some (updatePage_set i rt r)"
proof -
  from assms have "updatePage_handler i ctx rt s = (Inr out, s')"
    unfolding updatePage_def by (rule action_Inr)
  then obtain u where u: "caller ctx = Some u"
    and rest: "await (getOwnedPage (upg_id i) (upg_projectId i) (user_id u))
       (\<lambda>_. await (update_pages (updatePage_set i rt) (\<lambda>r. pg_id r = upg_id i))
          (\<lambda>rows. return_io (first rows))) s = (Inr out, s')"
    unfolding updatePage_handler_def by (rule handler_Inr)
  from rest obtain page s1 where "getOwnedPage (upg_id i) (upg_projectId i) (user_id u) s = (Inr page, s1)"
    by (rule await_Inr)
  then have owned: "fst (getOwnedPage (upg_id i) (upg_projectId i) (user_id u) s) = Inr page"
    by simp
  note run = updatePage_handler_run [OF u owned, of rt]
  from run \<open>updatePage_handler i ctx rt s = (Inr out, s')\<close>
  have out: "out = first (map (updatePage_set i rt) (filter (\<lambda>r. pg_id r = upg_id i) (pages s)))"
    and s': "s' = s\<lparr>pages := map (\<lambda>r. if pg_id r = upg_id i then updatePage_set i rt r else r) (pages s),
        statements := statements s @ [SELECT ComicProjects, SELECT ComicPages, UPDATE ComicPages]\<rparr>"
    by simp_all
  from s' show "pages s' = map (\<lambda>r. if pg_id r = upg_id i then updatePage_set i rt r else r) (pages s)"
    and "projects s' = projects s" and "panels s' = panels s"
    by simp_all
  from first_filter_Some [OF getOwnedPage_Inr(3) [OF owned]]
  have "page \<in> set (pages s)" and "pg_id page = upg_id i"
    by simp_all
  from first_map_filter [of page "pages s" "\<lambda>r. pg_id r = upg_id i", OF this]
  show "\<exists>r \<in> set (pages s). pg_id r = upg_id i \<and> out = Some (updatePage_set i rt r)"
    unfolding out by blast
qed

lemma updatePanel_Inr:
  assumes "updatePanel i ctx rt s = (Inr out, s')"
  shows "panels s' = map (\<lambda>r. if pn_id r = upn_id i then updatePanel_set i r else r) (panels s)"
    and "projects s' = projects s" and "pages s' = pages s"
    and "\<exists>r \<in> set (panels s). pn_id r = upn_id i \<and> out = Some (updatePanel_set i r)"
proof -
  from assms have handler: "updatePanel_handler i ctx rt s = (Inr out, s')"
    unfolding updatePanel_def by (rule action_Inr)
  then obtain u where u: "caller ctx = Some u"
    and rest: "await (getOwnedPage (upn_pageId i) (upn_projectId i) (user_id u))
       (\<lambda>_. await (select_panels (\<lambda>r. pn_id r = upn_id i))
          (\<lambda>found. case first found of
             None \<Rightarrow> throw (ActionError NOT_FOUND ''Panel not found.'')
           | Some existing \<Rightarrow>
               await (update_panels (updatePanel_set i) (\<lambda>r. pn_id r = upn_id i))
                 (\<lambda>rows. return_io (first rows)))) s = (Inr out, s')"
    unfolding updatePanel_handler_def by (rule handler_Inr)
  from rest obtain page s1 where "getOwnedPage (upn_pageId i) (upn_projectId i) (user_id u) s = (Inr page, s1)"
    by (rule await_Inr)
  then have owned: "fst (getOwnedPage (upn_pageId i) (upn_projectId i) (user_id u) s) = Inr page"
    by simp
  note run = updatePanel_handler_run [OF u owned, of rt]
  from run handler obtain existing
    where existing: "first (filter (\<lambda>r. pn_id r = upn_id i) (panels s)) = Some existing"
    by (cases "first (filter (\<lambda>r. pn_id r = upn_id i) (panels s))") auto
  from run handler existing
  have out: "out = first (map (updatePanel_set i) (filter (\<lambda>r. pn_id r = upn_id i) (panels s)))"
    and s': "s' = s\<lparr>panels := map (\<lambda>r. if pn_id r = upn_id i then updatePanel_set i r else r) (panels s),
             statements := statements s @
               [SELECT ComicProjects, SELECT ComicPages, SELECT ComicPanels, UPDATE ComicPanels]\<rparr>"
    by simp_all
  from s' show "panels s' = map (\<lambda>r. if pn_id r = upn_id i then updatePanel_set i r else r) (panels s)"
    and "projects s' = projects s" and "pages s' = pages s"
    by simp_all
  from first_filter_Some [OF existing]
  have "existing \<in> set (panels s)" and "pn_id existing = upn_id i"
    by simp_all
  from first_map_filter [of existing "panels s" "\<lambda>r. pn_id r = upn_id i", OF this]
  show "\<exists>r \<in> set (panels s). pn_id r = upn_id i \<and> out = Some (updatePanel_set i r)"
    unfolding out by blast
qed

lemma updateProject_set_columns:
  "prj_id (updateProject_set i rt r) = prj_id r"
  "prj_userId (updateProject_set i rt r) = prj_userId r"
  "prj_createdAt (updateProject_set i rt r) = prj_createdAt r"
  "prj_updatedAt (updateProject_set i rt r) = now rt"
  "prj_title (updateProject_set i rt r) = (case upj_title i of None \<Rightarrow> prj_title r | Some v \<Rightarrow> v)"
  "prj_description (updateProject_set i rt r) =
     (case upj_description i of None \<Rightarrow> prj_description r | Some v \<Rightarrow> Some v)"
  "prj_genre (updateProject_set i rt r) = (case upj_genre i of None \<Rightarrow> prj_genre r | Some v \<Rightarrow> Some v)"
  "prj_format (updateProject_set i rt r) = (case upj_format i of None \<Rightarrow> prj_format r | Some v \<Rightarrow> Some v)"
  "prj_targetAudience (updateProject_set i rt r) =
     (case upj_targetAudience i of None \<Rightarrow> prj_targetAudience r | Some v \<Rightarrow> Some v)"
  by (simp_all add: updateProject_set_def spread_def split: option.splits)

lemma updatePage_set_columns:
  "pg_id (updatePage_set i rt r) = pg_id r"
  "pg_projectId (updatePage_set i rt r) = pg_projectId r"
  "pg_createdAt (updatePage_set i rt r) = pg_createdAt r"
  "pg_updatedAt (updatePage_set i rt r) = now rt"
  "pg_pageNumber (updatePage_set i rt r) = (case upg_pageNumber i of None \<Rightarrow> pg_pageNumber r | Some v \<Rightarrow> v)"
  "pg_title (updatePage_set i rt r) = (case upg_title i of None \<Rightarrow> pg_title r | Some v \<Rightarrow> Some v)"
  "pg_thumbnailUrl (updatePage_set i rt r) =
     (case upg_thumbnailUrl i of None \<Rightarrow> pg_thumbnailUrl r | Some v \<Rightarrow> Some v)"
  "pg_notes (updatePage_set i rt r) = (case upg_notes i of None \<Rightarrow> pg_notes r | Some v \<Rightarrow> Some v)"
  by (simp_all add: updatePage_set_def spread_def split: option.splits)

lemma updatePanel_set_columns:
  "pn_id (updatePanel_set i r) = pn_id r"
  "pn_pageId (updatePanel_set i r) = pn_pageId r"
  "pn_createdAt (updatePanel_set i r) = pn_createdAt r"
  "pn_panelIndex (updatePanel_set i r) = (case upn_panelIndex i of None \<Rightarrow> pn_panelIndex r | Some v \<Rightarrow> v)"
  "pn_layoutJson (updatePanel_set i r) =
     (case upn_layoutJson i of None \<Rightarrow> pn_layoutJson r | Some v \<Rightarrow> Some v)"
  "pn_description (updatePanel_set i r) =
     (case upn_description i of None \<Rightarrow> pn_description r | Some v \<Rightarrow> Some v)"
  "pn_dialogue (updatePanel_set i r) = (case upn_dialogue i of None \<Rightarrow> pn_dialogue r | Some v \<Rightarrow> Some v)"
  "pn_caption (updatePanel_set i r) = (case upn_caption i of None \<Rightarrow> pn_caption r | Some v \<Rightarrow> Some v)"
  "pn_soundEffects (updatePanel_set i r) =
     (case upn_soundEffects i of None \<Rightarrow> pn_soundEffects r | Some v \<Rightarrow> Some v)"
  by (simp_all add: updatePanel_set_def spread_def split: option.splits)

text \<open>
  Claim C8. When \<open>updateProject\<close>, \<open>updatePage\<close> or \<open>updatePanel\<close> returns, the
  table it updates has the same rows in the same order as before, where a row of another
  id is unchanged and a row of the given id has, column by column, the supplied value
  where the input supplies one and its previous value where it does not; \<open>id\<close>, the
  parent reference and \<open>createdAt\<close> are never written, and \<open>updatedAt\<close> (which a panel
  does not have) is the time of the update. The other two tables are unchanged, and the
  row the call returns is a row of the updated table with the given id.
\<close>

theorem partial_update_preserves_unsupplied:
  "(updateProject i ctx rt s = (Inr out, s') \<longrightarrow>
      list_all2 (\<lambda>r r'.
          if prj_id r = upj_id i
          then prj_id r' = prj_id r \<and> prj_userId r' = prj_userId r
             \<and> prj_createdAt r' = prj_createdAt r \<and> prj_updatedAt r' = now rt
             \<and> prj_title r' = (case upj_title i of None \<Rightarrow> prj_title r | Some v \<Rightarrow> v)
             \<and> prj_description r' =
                 (case upj_description i of None \<Rightarrow> prj_description r | Some v \<Rightarrow> Some v)
             \<and> prj_genre r' = (case upj_genre i of None \<Rightarrow> prj_genre r | Some v \<Rightarrow> Some v)
             \<and> prj_format r' = (case upj_format i of None \<Rightarrow> prj_format r | Some v \<Rightarrow> Some v)
             \<and> prj_targetAudience r' =
                 (case upj_targetAudience i of None \<Rightarrow> prj_targetAudience r | Some v \<Rightarrow> Some v)
          else r' = r) (projects s) (projects s')
      \<and> pages s' = pages s \<and> panels s' = panels s
      \<and> (\<exists>r' \<in> set (projects s'). out = Some r' \<and> prj_id r' = upj_id i))
   \<and> (updatePage j ctx rt s = (Inr out2, s2) \<longrightarrow>
      list_all2 (\<lambda>r r'.
          if pg_id r = upg_id j
          then pg_id r' = pg_id r \<and> pg_projectId r' = pg_projectId r
             \<and> pg_createdAt r' = pg_createdAt r \<and> pg_updatedAt r' = now rt
             \<and> pg_pageNumber r' = (case upg_pageNumber j of None \<Rightarrow> pg_pageNumber r | Some v \<Rightarrow> v)
             \<and> pg_title r' = (case upg_title j of None \<Rightarrow> pg_title r | Some v \<Rightarrow> Some v)
             \<and> pg_thumbnailUrl r' =
                 (case upg_thumbnailUrl j of None \<Rightarrow> pg_thumbnailUrl r | Some v \<Rightarrow> Some v)
             \<and> pg_notes r' = (case upg_notes j of None \<Rightarrow> pg_notes r | Some v \<Rightarrow> Some v)
          else r' = r) (pages s) (pages s2)
      \<and> projects s2 = projects s \<and> panels s2 = panels s
      \<and> (\<exists>r' \<in> set (pages s2). out2 = Some r' \<and> pg_id r' = upg_id j))
   \<and> (updatePanel k ctx rt s = (Inr out3, s3) \<longrightarrow>
      list_all2 (\<lambda>r r'.
          if pn_id r = upn_id k
          then pn_id r' = pn_id r \<and> pn_pageId r' = pn_pageId r \<and> pn_createdAt r' = pn_createdAt r
             \<and> pn_panelIndex r' = (case upn_panelIndex k of None \<Rightarrow> pn_panelIndex r | Some v \<Rightarrow> v)
             \<and> pn_layoutJson r' =
                 (case upn_layoutJson k of None \<Rightarrow> pn_layoutJson r | Some v \<Rightarrow> Some v)
             \<and> pn_description r' =
                 (case upn_description k of None \<Rightarrow> pn_description r | Some v \<Rightarrow> Some v)
             \<and> pn_dialogue r' = (case upn_dialogue k of None \<Rightarrow> pn_dialogue r | Some v \<Rightarrow> Some v)
             \<and> pn_caption r' = (case upn_caption k of None \<Rightarrow> pn_caption r | Some v \<Rightarrow> Some v)
             \<and> pn_soundEffects r' =
                 (case upn_soundEffects k of None \<Rightarrow> pn_soundEffects r | Some v \<Rightarrow> Some v)
          else r' = r) (panels s) (panels s3)
      \<and> projects s3 = projects s \<and> pages s3 = pages s
      \<and> (\<exists>r' \<in> set (panels s3). out3 = Some r' \<and> pn_id r' = upn_id k))"
proof (intro conjI impI)
  assume ok: "updateProject i ctx rt s = (Inr out, s')"
  note facts = updateProject_Inr [OF ok]
  show "pages s' = pages s" and "panels s' = panels s"
    by (fact facts)+
  show "list_all2 (\<lambda>r r'.
          if prj_id r = upj_id i
          then prj_id r' = prj_id r \<and> prj_userId r' = prj_userId r
             \<and> prj_createdAt r' = prj_createdAt r \<and> prj_updatedAt r' = now rt
             \<and> prj_title r' = (case upj_title i of None \<Rightarrow> prj_title r | Some v \<Rightarrow> v)
             \<and> prj_description r' =
                 (case upj_description i of None \<Rightarrow> prj_description r | Some v \<Rightarrow> Some v)
             \<and> prj_genre r' = (case upj_genre i of None \<Rightarrow> prj_genre r | Some v \<Rightarrow> Some v)
             \<and> prj_format r' = (case upj_format i of None \<Rightarrow> prj_format r | Some v \<Rightarrow> Some v)
             \<and> prj_targetAudience r' =
                 (case upj_targetAudience i of None \<Rightarrow> prj_targetAudience r | Some v \<Rightarrow> Some v)
          else r' = r) (projects s) (projects s')"
    unfolding facts(1) by (rule list_all2_map_self) (simp add: updateProject_set_columns)
  from facts(4) obtain r where "r \<in> set (projects s)" and "prj_id r = upj_id i"
    and "out = Some (updateProject_set i rt r)"
    by blast
  then show "\<exists>r' \<in> set (projects s'). out = Some r' \<and> prj_id r' = upj_id i"
    unfolding facts(1)
    by (intro bexI [of _ "updateProject_set i rt r"]) (auto simp: updateProject_set_columns image_iff)
next
  assume ok: "updatePage j ctx rt s = (Inr out2, s2)"
  note facts = updatePage_Inr [OF ok]
  show "projects s2 = projects s" and "panels s2 = panels s"
    by (fact facts)+
  show "list_all2 (\<lambda>r r'.
          if pg_id r = upg_id j
          then pg_id r' = pg_id r \<and> pg_projectId r' = pg_projectId r
             \<and> pg_createdAt r' = pg_createdAt r \<and> pg_updatedAt r' = now rt
             \<and> pg_pageNumber r' = (case upg_pageNumber j of None \<Rightarrow> pg_pageNumber r | Some v \<Rightarrow> v)
             \<and> pg_title r' = (case upg_title j of None \<Rightarrow> pg_title r | Some v \<Rightarrow> Some v)
             \<and> pg_thumbnailUrl r' =
                 (case upg_thumbnailUrl j of None \<Rightarrow> pg_thumbnailUrl r | Some v \<Rightarrow> Some v)
             \<and> pg_notes r' = (case upg_notes j of None \<Rightarrow> pg_notes r | Some v \<Rightarrow> Some v)
          else r' = r) (pages s) (pages s2)"
    unfolding facts(1) by (rule list_all2_map_self) (simp add: updatePage_set_columns)
  from facts(4) obtain r where "r \<in> set (pages s)" and "pg_id r = upg_id j"
    and "out2 = Some (updatePage_set j rt r)"
    by blast
  then show "\<exists>r' \<in> set (pages s2). out2 = Some r' \<and> pg_id r' = upg_id j"
    unfolding facts(1)
    by (intro bexI [of _ "updatePage_set j rt r"]) (auto simp: updatePage_set_columns image_iff)
next
  assume ok: "updatePanel k ctx rt s = (Inr out3, s3)"
  note facts = updatePanel_Inr [OF ok]
  show "projects s3 = projects s" and "pages s3 = pages s"
    by (fact facts)+
  show "list_all2 (\<lambda>r r'.
          if pn_id r = upn_id k
          then pn_id r' = pn_id r \<and> pn_pageId r' = pn_pageId r \<and> pn_createdAt r' = pn_createdAt r
             \<and> pn_panelIndex r' = (case upn_panelIndex k of None \<Rightarrow> pn_panelIndex r | Some v \<Rightarrow> v)
             \<and> pn_layoutJson r' =
                 (case upn_layoutJson k of None \<Rightarrow> pn_layoutJson r | Some v \<Rightarrow> Some v)
             \<and> pn_description r' =
                 (case upn_description k of None \<Rightarrow> pn_description r | Some v \<Rightarrow> Some v)
             \<and> pn_dialogue r' = (case upn_dialogue k of None \<Rightarrow> pn_dialogue r | Some v \<Rightarrow> Some v)
             \<and> pn_caption r' = (case upn_caption k of None \<Rightarrow> pn_caption r | Some v \<Rightarrow> Some v)
             \<and> pn_soundEffects r' =
                 (case upn_soundEffects k of None \<Rightarrow> pn_soundEffects r | Some v \<Rightarrow> Some v)
          else r' = r) (panels s) (panels s3)"
    unfolding facts(1) by (rule list_all2_map_self) (simp add: updatePanel_set_columns)
  from facts(4) obtain r where "r \<in> set (panels s)" and "pn_id r = upn_id k"
    and "out3 = Some (updatePanel_set k r)"
    by blast
  then show "\<exists>r' \<in> set (panels s3). out3 = Some r' \<and> pn_id r' = upn_id k"
    unfolding facts(1)
    by (intro bexI [of _ "updatePanel_set k r"]) (auto simp: updatePanel_set_columns image_iff)
qed

text \<open>
  The round trip: in the studio alice creates a project with title \<open>A\<close>, description
  \<open>B\<close> and genre \<open>C\<close>, updates its title alone, and lists the projects again.
\<close>

theorem partial_update_preserves_unsupplied_witness:
  "fst (updateProject
          \<lparr>upj_id = ''u9'', upj_title = Some ''newA'', upj_description = None, upj_genre = None,
           upj_format = None, upj_targetAudience = None\<rparr> alice \<lparr>randomUUID = ''u10'', now = 950\<rparr>
          (snd (createProject
             \<lparr>cpj_title = ''A'', cpj_description = Some ''B'', cpj_genre = Some ''C'',
              cpj_format = None, cpj_targetAudience = None\<rparr> alice clock studio)))
     = Inr (Some \<lparr>prj_id = ''u9'', prj_userId = ''alice'', prj_title = ''newA'',
          prj_description = Some ''B'', prj_genre = Some ''C'', prj_format = None,
          prj_targetAudience = None, prj_createdAt = 900, prj_updatedAt = 950\<rparr>)
   \<and> fst (listProjects () alice clock
       (snd (updateProject
          \<lparr>upj_id = ''u9'', upj_title = Some ''newA'', upj_description = None, upj_genre = None,
           upj_format = None, upj_targetAudience = None\<rparr> alice \<lparr>randomUUID = ''u10'', now = 950\<rparr>
          (snd (createProject
             \<lparr>cpj_title = ''A'', cpj_description = Some ''B'', cpj_genre = Some ''C'',
              cpj_format = None, cpj_targetAudience = None\<rparr> alice clock studio)))))
     = Inr \<lparr>items =
         [\<lparr>prj_id = ''p1'', prj_userId = ''alice'', prj_title = ''Issue 1'',
           prj_description = Some ''pilot'', prj_genre = Some ''noir'', prj_format = None,
           prj_targetAudience = None, prj_createdAt = 100, prj_updatedAt = 100\<rparr>,
          \<lparr>prj_id = ''u9'', prj_userId = ''alice'', prj_title = ''newA'',
           prj_description = Some ''B'', prj_genre = Some ''C'', prj_format = None,
           prj_targetAudience = None, prj_createdAt = 900, prj_updatedAt = 950\<rparr>],
        total = 2\<rparr>"
  using partial_update_preserves_unsupplied [where
      i = "\<lparr>upj_id = ''u9'', upj_title = Some ''newA'', upj_description = None, upj_genre = None,
           upj_format = None, upj_targetAudience = None\<rparr>"
      and ctx = alice and rt = "\<lparr>randomUUID = ''u10'', now = 950\<rparr>"
      and s = "snd (createProject
             \<lparr>cpj_title = ''A'', cpj_description = Some ''B'', cpj_genre = Some ''C'',
              cpj_format = None, cpj_targetAudience = None\<rparr> alice clock studio)"
      and out = "Some \<lparr>prj_id = ''u9'', prj_userId = ''alice'', prj_title = ''newA'',
          prj_description = Some ''B'', prj_genre = Some ''C'', prj_format = None,
          prj_targetAudience = None, prj_createdAt = 900, prj_updatedAt = 950\<rparr>"
      and s' = "snd (updateProject
          \<lparr>upj_id = ''u9'', upj_title = Some ''newA'', upj_description = None, upj_genre = None,
           upj_format = None, upj_targetAudience = None\<rparr> alice \<lparr>randomUUID = ''u10'', now = 950\<rparr>
          (snd (createProject
             \<lparr>cpj_title = ''A'', cpj_description = Some ''B'', cpj_genre = Some ''C'',
              cpj_format = None, cpj_targetAudience = None\<rparr> alice clock studio)))"]
  by (simp add: action_eval studio_eval)

subsection \<open>The existence check of \<open>updatePanel\<close>\<close>

text \<open>
  Claim C9. Once the gate has passed and the page has resolved, \<open>updatePanel\<close> selects
  the panel by id, and when no panel has that id it throws \<open>NOT_FOUND\<close> "Panel not
  found.": the statements issued are the two selects of the resolver and this third one,
  no update, and the tables are as before. The page and project update paths have no such
  check: once their resolver has succeeded they go straight to the update statement and
  return.
\<close>

theorem updatePanel_existence_check:
  assumes "caller ctx = Some u"
  shows "(fst (getOwnedPage (upn_pageId i) (upn_projectId i) (user_id u) s) = Inr page \<longrightarrow>
          (\<forall>r \<in> set (panels s). pn_id r \<noteq> upn_id i) \<longrightarrow>
          updatePanel_handler i ctx rt s =
            (Inl (ActionError NOT_FOUND ''Panel not found.''),
             s\<lparr>statements := statements s @
                 [SELECT ComicProjects, SELECT ComicPages, SELECT ComicPanels]\<rparr>))
    \<and> (fst (getOwnedPage (upg_id j) (upg_projectId j) (user_id u) s) = Inr page' \<longrightarrow>
          (\<exists>out. fst (updatePage_handler j ctx rt s) = Inr out)
          \<and> statements (snd (updatePage_handler j ctx rt s)) =
              statements s @ [SELECT ComicProjects, SELECT ComicPages, UPDATE ComicPages])
    \<and> (fst (getOwnedProject (upj_id k) (user_id u) s) = Inr project \<longrightarrow>
          (\<exists>out. fst (updateProject_handler k ctx rt s) = Inr out)
          \<and> statements (snd (updateProject_handler k ctx rt s)) =
              statements s @ [SELECT ComicProjects, UPDATE ComicProjects])"
proof (intro conjI impI)
  assume chain: "fst (getOwnedPage (upn_pageId i) (upn_projectId i) (user_id u) s) = Inr page"
    and none: "\<forall>r \<in> set (panels s). pn_id r \<noteq> upn_id i"
  from none have "first (filter (\<lambda>r. pn_id r = upn_id i) (panels s)) = None"
    by (simp add: first_None filter_empty_conv)
  then show "updatePanel_handler i ctx rt s =
            (Inl (ActionError NOT_FOUND ''Panel not found.''),
             s\<lparr>statements := statements s @
                 [SELECT ComicProjects, SELECT ComicPages, SELECT ComicPanels]\<rparr>)"
    by (simp add: updatePanel_handler_run [OF assms chain])
next
  assume chain: "fst (getOwnedPage (upg_id j) (upg_projectId j) (user_id u) s) = Inr page'"
  show "\<exists>out. fst (updatePage_handler j ctx rt s) = Inr out"
    by (simp add: updatePage_handler_run [OF assms chain])
  show "statements (snd (updatePage_handler j ctx rt s)) =
              statements s @ [SELECT ComicProjects, SELECT ComicPages, UPDATE ComicPages]"
    by (simp add: updatePage_handler_run [OF assms chain])
next
  assume chain: "fst (getOwnedProject (upj_id k) (user_id u) s) = Inr project"
  show "\<exists>out. fst (updateProject_handler k ctx rt s) = Inr out"
    by (simp add: updateProject_handler_run [OF assms chain])
  show "statements (snd (updateProject_handler k ctx rt s)) =
              statements s @ [SELECT ComicProjects, UPDATE ComicProjects]"
    by (simp add: updateProject_handler_run [OF assms chain])
qed

text \<open>
  In the studio, alice updates the dialogue of a panel \<open>n7\<close> that does not exist, under
  the page \<open>g1\<close> of alice's project.
\<close>

theorem updatePanel_existence_check_witness:
  "updatePanel_handler
     \<lparr>upn_id = ''n7'', upn_pageId = ''g1'', upn_projectId = ''p1'', upn_panelIndex = None,
      upn_layoutJson = None, upn_description = None, upn_dialogue = Some ''Hi'',
      upn_caption = None, upn_soundEffects = None\<rparr> alice clock studio =
     (Inl (ActionError NOT_FOUND ''Panel not found.''),
      studio\<lparr>statements := [SELECT ComicProjects, SELECT ComicPages, SELECT ComicPanels]\<rparr>)"
  using updatePanel_existence_check [where ctx = alice and u = "\<lparr>user_id = ''alice''\<rparr>"
      and i = "\<lparr>upn_id = ''n7'', upn_pageId = ''g1'', upn_projectId = ''p1'', upn_panelIndex = None,
        upn_layoutJson = None, upn_description = None, upn_dialogue = Some ''Hi'',
        upn_caption = None, upn_soundEffects = None\<rparr>"
      and s = studio and page = "hd (pages studio)" and rt = clock]
  by (simp add: studio_eval)

subsection \<open>Panels: deletion\<close>

lemma deletePanel_handler_run:
  assumes "caller ctx = Some u"
    and "fst (getOwnedPage (dpn_pageId input) (dpn_projectId input) (user_id u) s) = Inr page"
  shows "deletePanel_handler input ctx rt s =
     (if length (filter (\<lambda>r. pn_id r = dpn_id input) (panels s)) = 0
      then Inl (ActionError NOT_FOUND ''Panel not found.'') else Inr (),
      issue (DELETE ComicPanels)
        ((issue (SELECT ComicPages) (issue (SELECT ComicProjects) s))
           \<lparr>panels := filter (\<lambda>r. pn_id r \<noteq> dpn_id input) (panels s)\<rparr>))"
  by (simp add: deletePanel_handler_def requireUser_Some [OF assms(1)] await_return
      getOwnedPage_Inr(1) [OF assms(2)] await_def delete_panels_def issue_tables throw_def
      return_io_def)




subsection \<open>Panels are addressed by id alone\<close>

lemma deletePanel_accepted:
  "deletePanel_input d = [] \<Longrightarrow> deletePanel d ctx rt = deletePanel_handler d ctx rt"
  by (simp add: deletePanel_def accepted)

lemma updatePanel_accepted:
  "updatePanel_input i = [] \<Longrightarrow> updatePanel i ctx rt = updatePanel_handler i ctx rt"
  by (simp add: updatePanel_def accepted)

text \<open>
  Claim C2. Let the caller be signed in and own the project/page chain they supply, and
  let \<open>target\<close> be any panel row whose id is the supplied panel id. Nothing is assumed of
  the page of \<open>target\<close>: it may differ from the supplied page and belong to another
  user's project. Then \<open>deletePanel\<close> returns success and \<open>target\<close> is gone, and
  \<open>updatePanel\<close> returns the updated row and the table holds \<open>target\<close> with the
  supplied columns assigned, every row of another id being left as it was.
\<close>

theorem panel_selected_by_id_alone:
  assumes "caller ctx = Some u"
    and "target \<in> set (panels s)"
  shows "(deletePanel_input d = [] \<longrightarrow>
          fst (getOwnedPage (dpn_pageId d) (dpn_projectId d) (user_id u) s) = Inr page \<longrightarrow>
          pn_id target = dpn_id d \<longrightarrow>
          fst (deletePanel d ctx rt s) = Inr ()
          \<and> target \<notin> set (panels (snd (deletePanel d ctx rt s)))
          \<and> panels (snd (deletePanel d ctx rt s)) = filter (\<lambda>r. pn_id r \<noteq> dpn_id d) (panels s))
    \<and> (updatePanel_input i = [] \<longrightarrow>
          fst (getOwnedPage (upn_pageId i) (upn_projectId i) (user_id u) s) = Inr page' \<longrightarrow>
          pn_id target = upn_id i \<longrightarrow>
          (\<exists>row. fst (updatePanel i ctx rt s) = Inr (Some row) \<and> pn_id row = upn_id i)
          \<and> updatePanel_set i target \<in> set (panels (snd (updatePanel i ctx rt s)))
          \<and> panels (snd (updatePanel i ctx rt s)) =
              map (\<lambda>r. if pn_id r = upn_id i then updatePanel_set i r else r) (panels s))"
proof (intro conjI impI)
  assume valid: "deletePanel_input d = []"
    and chain: "fst (getOwnedPage (dpn_pageId d) (dpn_projectId d) (user_id u) s) = Inr page"
    and id: "pn_id target = dpn_id d"
  note run = deletePanel_handler_run [OF assms(1) chain, of rt]
  from assms(2) id have some: "filter (\<lambda>r. pn_id r = dpn_id d) (panels s) \<noteq> []"
    by (auto simp: filter_empty_conv)
  then show "fst (deletePanel d ctx rt s) = Inr ()"
    by (simp add: deletePanel_accepted [OF valid] run)
  show "panels (snd (deletePanel d ctx rt s)) = filter (\<lambda>r. pn_id r \<noteq> dpn_id d) (panels s)"
    by (simp add: deletePanel_accepted [OF valid] run issue_def)
  with id show "target \<notin> set (panels (snd (deletePanel d ctx rt s)))"
    by simp
next
  assume valid: "updatePanel_input i = []"
    and chain: "fst (getOwnedPage (upn_pageId i) (upn_projectId i) (user_id u) s) = Inr page'"
    and id: "pn_id target = upn_id i"
  note run = updatePanel_handler_run [OF assms(1) chain, of rt]
  from assms(2) id have "filter (\<lambda>r. pn_id r = upn_id i) (panels s) \<noteq> []"
    by (auto simp: filter_empty_conv)
  then obtain existing rest where found: "filter (\<lambda>r. pn_id r = upn_id i) (panels s) = existing # rest"
    by (cases "filter (\<lambda>r. pn_id r = upn_id i) (panels s)") auto
  then have "existing \<in> set (filter (\<lambda>r. pn_id r = upn_id i) (panels s))"
    by simp
  then have existing: "pn_id existing = upn_id i"
    by simp
  have keeps_id: "pn_id (updatePanel_set i r) = pn_id r" for r
    by (simp add: updatePanel_set_def spread_def split: option.splits)
  have result: "fst (updatePanel i ctx rt s) = Inr (Some (updatePanel_set i existing))"
    by (simp add: updatePanel_accepted [OF valid] run found first_def)
  with existing keeps_id
  show "\<exists>row. fst (updatePanel i ctx rt s) = Inr (Some row) \<and> pn_id row = upn_id i"
    by simp
  show table: "panels (snd (updatePanel i ctx rt s)) =
              map (\<lambda>r. if pn_id r = upn_id i then updatePanel_set i r else r) (panels s)"
    by (simp add: updatePanel_accepted [OF valid] run found first_def)
  from assms(2) id show "updatePanel_set i target \<in> set (panels (snd (updatePanel i ctx rt s)))"
    unfolding table by (auto simp: image_iff intro!: bexI [of _ target])
qed

text \<open>
  In the studio, alice supplies alice's own project \<open>p1\<close> and page \<open>g1\<close> together with the
  id \<open>n2\<close> of bob's panel, which sits on bob's page \<open>g2\<close>: the delete removes it, the
  update rewrites its dialogue.
\<close>

theorem panel_selected_by_id_alone_witness:
  "fst (deletePanel \<lparr>dpn_id = ''n2'', dpn_pageId = ''g1'', dpn_projectId = ''p1''\<rparr> alice clock studio)
     = Inr ()
   \<and> map pn_id (panels (snd (deletePanel
        \<lparr>dpn_id = ''n2'', dpn_pageId = ''g1'', dpn_projectId = ''p1''\<rparr> alice clock studio))) = [''n1'']
   \<and> map (\<lambda>r. (pn_id r, pn_pageId r, pn_dialogue r)) (panels (snd (updatePanel
        \<lparr>upn_id = ''n2'', upn_pageId = ''g1'', upn_projectId = ''p1'', upn_panelIndex = None,
         upn_layoutJson = None, upn_description = None, upn_dialogue = Some ''Mine now'',
         upn_caption = None, upn_soundEffects = None\<rparr> alice clock studio)))
       = [(''n1'', ''g1'', Some ''Hello''), (''n2'', ''g2'', Some ''Mine now'')]"
  using panel_selected_by_id_alone [where ctx = alice and u = "\<lparr>user_id = ''alice''\<rparr>"
      and target = "panels studio ! 1" and s = studio
      and d = "\<lparr>dpn_id = ''n2'', dpn_pageId = ''g1'', dpn_projectId = ''p1''\<rparr>"
      and i = "\<lparr>upn_id = ''n2'', upn_pageId = ''g1'', upn_projectId = ''p1'', upn_panelIndex = None,
         upn_layoutJson = None, upn_description = None, upn_dialogue = Some ''Mine now'',
         upn_caption = None, upn_soundEffects = None\<rparr>"
      and page = "hd (pages studio)" and page' = "hd (pages studio)" and rt = clock]
  by (simp add: studio_eval deletePanel_input_def updatePanel_input_def min1_def refine_def
      updatePanel_refine_def updatePanel_set_def spread_def)

subsection \<open>Pages: deletion and its cascade\<close>

text \<open>
  \<open>deletePage\<close> deletes the page row first and the panels of the page second. The
  reference \<open>ComicPanels.pageId\<close> makes the order matter: for a signed-in caller whose
  chain resolves, a page that still has a panel cannot be deleted, the first statement is
  refused and the second is never issued; a page without panels is deleted, and the
  second statement finds nothing to delete.
\<close>

lemma deletePage_handler_run:
  assumes "caller ctx = Some u"
    and "fst (getOwnedPage (dpg_id input) (dpg_projectId input) (user_id u) s) = Inr page"
  shows "deletePage_handler input ctx rt s =
     (if (\<exists>n \<in> set (panels s). pn_pageId n = dpg_id input)
      then (Inl (ConstraintError FOREIGNKEY ComicPages),
            s\<lparr>statements := statements s @
                [SELECT ComicProjects, SELECT ComicPages, DELETE ComicPages]\<rparr>)
      else (Inr (),
            s\<lparr>pages := filter (\<lambda>r. pg_id r \<noteq> dpg_id input) (pages s),
              statements := statements s @
                [SELECT ComicProjects, SELECT ComicPages, DELETE ComicPages, DELETE ComicPanels]\<rparr>))"
proof -
  from first_filter_Some [OF getOwnedPage_Inr(3) [OF assms(2)]]
  have page: "page \<in> set (pages s)" "pg_id page = dpg_id input"
    by simp_all
  have referenced:
    "(\<exists>n \<in> set (panels s). \<exists>g \<in> set (pages s). pg_id g = dpg_id input \<and> pn_pageId n = pg_id g)
      \<longleftrightarrow> (\<exists>n \<in> set (panels s). pn_pageId n = dpg_id input)"
    using page by metis
  have kept: "filter (\<lambda>r. pn_pageId r \<noteq> dpg_id input) (panels s) = panels s"
    if "\<not> (\<exists>n \<in> set (panels s). pn_pageId n = dpg_id input)"
    using that by (simp add: filter_id_conv)
  show ?thesis
  proof (cases "\<exists>n \<in> set (panels s). pn_pageId n = dpg_id input")
    case True
    with referenced show ?thesis
      by (simp add: deletePage_handler_def requireUser_Some [OF assms(1)] await_return
          getOwnedPage_Inr(1) [OF assms(2)] await_def delete_pages_def issue_def return_io_def)
  next
    case False
    with referenced kept [OF False] show ?thesis
      by (simp add: deletePage_handler_def requireUser_Some [OF assms(1)] await_return
          getOwnedPage_Inr(1) [OF assms(2)] await_def delete_pages_def delete_panels_def
          issue_def return_io_def)
  qed
qed

text \<open>
  After a page without panels has been deleted, \<open>listPanels\<close> for that page by the same
  caller resolves the page first and throws \<open>NOT_FOUND\<close> "Page not found.".
\<close>

lemma listPanels_after_deletePage:
  assumes "caller ctx = Some u"
    and "fst (getOwnedPage (dpg_id input) (dpg_projectId input) (user_id u) s) = Inr page"
    and "\<forall>n \<in> set (panels s). pn_pageId n \<noteq> dpg_id input"
  shows "fst (deletePage_handler input ctx rt s) = Inr ()"
    and "fst (listPanels_handler \<lparr>lpn_pageId = dpg_id input, lpn_projectId = dpg_projectId input\<rparr>
                ctx rt' (snd (deletePage_handler input ctx rt s)))
           = Inl (ActionError NOT_FOUND ''Page not found.'')"
proof -
  from assms(3) have none: "\<not> (\<exists>n \<in> set (panels s). pn_pageId n = dpg_id input)"
    by simp
  note run = deletePage_handler_run [OF assms(1,2), of rt]
  let ?s' = "snd (deletePage_handler input ctx rt s)"
  from none show "fst (deletePage_handler input ctx rt s) = Inr ()"
    by (simp add: run)
  from none have tables: "pages ?s' = filter (\<lambda>r. pg_id r \<noteq> dpg_id input) (pages s)"
    "projects ?s' = projects s"
    by (simp_all add: run)
  have no_page:
    "first (filter (\<lambda>r. pg_id r = dpg_id input \<and> pg_projectId r = dpg_projectId input) (pages ?s')) = None"
    by (simp add: tables first_None filter_empty_conv)
  have "getOwnedPage (dpg_id input) (dpg_projectId input) (user_id u) ?s' =
          (Inl (ActionError NOT_FOUND ''Page not found.''),
           issue (SELECT ComicPages) (issue (SELECT ComicProjects) ?s'))"
    using getOwnedPage_Inr(2) [OF assms(2)]
    by (auto simp: getOwnedPage_run [of _ _ _ ?s'] no_page tables(2))
  then show "fst (listPanels_handler \<lparr>lpn_pageId = dpg_id input, lpn_projectId = dpg_projectId input\<rparr>
                ctx rt' ?s') = Inl (ActionError NOT_FOUND ''Page not found.'')"
    by (simp add: listPanels_handler_def requireUser_Some [OF assms(1)] await_def return_io_def)
qed

text \<open>
  Claim C5 does not hold of the code. In the studio alice deletes the page \<open>g1\<close>, which
  holds the panel \<open>n1\<close>: the delete of the page row is refused by the foreign key, the
  delete of the panels is never issued, page and panel are both still in the store, and
  the \<open>listPanels\<close> call that follows returns the panel.
\<close>

theorem deletePage_refused_while_panels_remain:
  "deletePage \<lparr>dpg_id = ''g1'', dpg_projectId = ''p1''\<rparr> alice clock studio
     = (Inl (ConstraintError FOREIGNKEY ComicPages),
        studio\<lparr>statements := [SELECT ComicProjects, SELECT ComicPages, DELETE ComicPages]\<rparr>)
   \<and> fst (listPanels \<lparr>lpn_pageId = ''g1'', lpn_projectId = ''p1''\<rparr> alice clock
            (snd (deletePage \<lparr>dpg_id = ''g1'', dpg_projectId = ''p1''\<rparr> alice clock studio)))
     = Inr \<lparr>items =
          [\<lparr>pn_id = ''n1'', pn_pageId = ''g1'', pn_panelIndex = 0, pn_layoutJson = None,
            pn_description = Some ''street'', pn_dialogue = Some ''Hello'', pn_caption = None,
            pn_soundEffects = None, pn_createdAt = 120\<rparr>],
        total = 1\<rparr>"
  by (simp add: deletePage_def listPanels_def defineAction_def deletePage_input_def
      listPanels_input_def min1_def deletePage_handler_def listPanels_handler_def studio_eval)

subsection \<open>Ownership of projects over time\<close>

lemma createProject_outcome:
  assumes "createProject i ctx rt s = (res, s')"
  shows "(projects s' = projects s \<and> (\<forall>e. res \<noteq> Inr e))
    \<or> (\<exists>u project. caller ctx = Some u \<and> res = Inr (Some project)
          \<and> prj_id project = randomUUID rt \<and> prj_userId project = user_id u
          \<and> projects s' = projects s @ [project]
          \<and> (\<forall>r \<in> set (projects s). prj_id r \<noteq> prj_id project))"
proof (cases "createProject_input i = []")
  case False
  with assms show ?thesis
    by (auto simp: createProject_def rejected)
next
  case True
  show ?thesis
  proof (cases "caller ctx")
    case None
    with True assms show ?thesis
      by (auto simp: createProject_def accepted createProject_handler_def requireUser_caller
          await_def throw_def)
  next
    case (Some u)
    with True assms show ?thesis
      by (auto simp: createProject_def accepted createProject_handler_def requireUser_caller
          await_def return_io_def insert_project_def issue_def first_def split: if_splits)
  qed
qed

text \<open>Computations that leave the projects table alone, and how they compose.\<close>

lemma await_keeps_projects:
  assumes "\<And>s. projects (snd (m s)) = projects s"
    and "\<And>x s. projects (snd (k x s)) = projects s"
  shows "projects (snd (await m k s)) = projects s"
proof (cases "m s")
  case (Pair res s1)
  with assms(1) [of s] have s1: "projects s1 = projects s"
    by simp
  show ?thesis
  proof (cases res)
    case (Inl e)
    with Pair s1 show ?thesis
      by (simp add: await_def)
  next
    case (Inr x)
    with Pair s1 assms(2) [of x s1] show ?thesis
      by (simp add: await_def)
  qed
qed

lemma defineAction_keeps_projects:
  assumes "\<And>s. projects (snd (handler i ctx rt s)) = projects s"
  shows "projects (snd (defineAction input handler i ctx rt s)) = projects s"
  using assms by (cases "input i") (simp_all add: defineAction_def throw_def)

lemma steps_keep_projects:
  "projects (snd (throw e s)) = projects s"
  "projects (snd (return_io x s)) = projects s"
  "projects (snd (requireUser ctx s)) = projects s"
  "projects (snd (getOwnedProject projectId userId s)) = projects s"
  "projects (snd (getOwnedPage pageId projectId userId s)) = projects s"
  "projects (snd (select_projects cp s)) = projects s"
  "projects (snd (select_pages cg s)) = projects s"
  "projects (snd (select_panels cn s)) = projects s"
  "projects (snd (insert_page page s)) = projects s"
  "projects (snd (insert_panel panel s)) = projects s"
  "projects (snd (update_pages ag cg s)) = projects s"
  "projects (snd (update_panels an cn s)) = projects s"
  "projects (snd (delete_pages cg s)) = projects s"
  "projects (snd (delete_panels cn s)) = projects s"
  by (simp_all add: throw_def return_io_def requireUser_caller getOwnedProject_run
      getOwnedPage_run select_projects_def select_pages_def select_panels_def insert_page_def
      insert_panel_def update_pages_def update_panels_def delete_pages_def delete_panels_def
      issue_def split: option.splits)

lemma actions_keep_projects:
  "projects (snd (listProjects () ctx rt s)) = projects s"
  "projects (snd (createPage i4 ctx rt s)) = projects s"
  "projects (snd (updatePage i5 ctx rt s)) = projects s"
  "projects (snd (deletePage i6 ctx rt s)) = projects s"
  "projects (snd (listPages i7 ctx rt s)) = projects s"
  "projects (snd (createPanel i8 ctx rt s)) = projects s"
  "projects (snd (updatePanel i9 ctx rt s)) = projects s"
  "projects (snd (deletePanel i10 ctx rt s)) = projects s"
  "projects (snd (listPanels i11 ctx rt s)) = projects s"
  unfolding listProjects_def createPage_def updatePage_def deletePage_def listPages_def
    createPanel_def updatePanel_def deletePanel_def listPanels_def
  by (rule defineAction_keeps_projects;
      simp add: listProjects_handler_def createPage_handler_def updatePage_handler_def
        deletePage_handler_def listPages_handler_def createPanel_handler_def
        updatePanel_handler_def deletePanel_handler_def listPanels_handler_def
        await_keeps_projects steps_keep_projects split: option.splits)+

lemma updateProject_keeps_owners:
  "map (\<lambda>r. (prj_id r, prj_userId r)) (projects (snd (updateProject i ctx rt s)))
     = map (\<lambda>r. (prj_id r, prj_userId r)) (projects s)"
proof (cases "updateProject_input i = []")
  case False
  then show ?thesis
    by (simp add: updateProject_def rejected)
next
  case True
  show ?thesis
  proof (cases "caller ctx")
    case None
    with True show ?thesis
      by (simp add: updateProject_def accepted updateProject_handler_def requireUser_caller
          await_def throw_def)
  next
    case (Some u)
    from True Some show ?thesis
      by (auto simp: updateProject_def accepted updateProject_handler_def requireUser_caller
          await_def return_io_def throw_def getOwnedProject_run update_projects_def issue_def
          updateProject_set_columns split: option.splits)
  qed
qed

lemma serve_keeps_creators:
  assumes inv: "\<forall>r \<in> set (projects s). m (prj_id r) = Some (prj_userId r)"
  shows "\<forall>r \<in> set (projects (serve rq s)).
           (case created rq s of None \<Rightarrow> m | Some (projectId, userId) \<Rightarrow> m(projectId \<mapsto> userId))
             (prj_id r) = Some (prj_userId r)"
proof (cases "req_call rq")
  case (CreateProject i)
  obtain res s' where run: "createProject i (req_context rq) (req_runtime rq) s = (res, s')"
    by (cases "createProject i (req_context rq) (req_runtime rq) s")
  from CreateProject run have after: "serve rq s = s'"
    by (simp add: serve_def)
  from createProject_outcome [OF run] show ?thesis
  proof
    assume "projects s' = projects s \<and> (\<forall>e. res \<noteq> Inr e)"
    then have same: "projects s' = projects s" and "created rq s = None"
      using CreateProject run by (cases res; simp add: created_def)+
    with inv after show ?thesis
      by simp
  next
    assume "\<exists>u project. caller (req_context rq) = Some u \<and> res = Inr (Some project)
          \<and> prj_id project = randomUUID (req_runtime rq) \<and> prj_userId project = user_id u
          \<and> projects s' = projects s @ [project]
          \<and> (\<forall>r \<in> set (projects s). prj_id r \<noteq> prj_id project)"
    then obtain u project where u: "caller (req_context rq) = Some u"
      and res: "res = Inr (Some project)"
      and owner: "prj_userId project = user_id u"
      and table: "projects s' = projects s @ [project]"
      and fresh: "\<forall>r \<in> set (projects s). prj_id r \<noteq> prj_id project"
      by blast
    from CreateProject run u res have "created rq s = Some (prj_id project, user_id u)"
      by (simp add: created_def)
    with inv after owner table fresh show ?thesis
      by auto
  qed
next
  case (UpdateProject i)
  then have after: "serve rq s = snd (updateProject i (req_context rq) (req_runtime rq) s)"
    and none: "created rq s = None"
    by (simp_all add: serve_def created_def)
  have "set (map (\<lambda>r. (prj_id r, prj_userId r)) (projects (serve rq s)))
      = set (map (\<lambda>r. (prj_id r, prj_userId r)) (projects s))"
    by (simp only: after updateProject_keeps_owners)
  then have "\<exists>r0 \<in> set (projects s). prj_id r0 = prj_id r \<and> prj_userId r0 = prj_userId r"
    if "r \<in> set (projects (serve rq s))" for r
    using that by (auto simp: image_iff set_eq_iff) metis
  with inv have "m (prj_id r) = Some (prj_userId r)"
    if "r \<in> set (projects (serve rq s))" for r
    using that by metis
  with none show ?thesis
    by simp
qed (simp_all add: serve_def created_def actions_keep_projects inv)

lemma serve_all_keeps_creators:
  "\<forall>r \<in> set (projects s). m (prj_id r) = Some (prj_userId r) \<Longrightarrow>
   \<forall>r \<in> set (projects (serve_all rqs s)). creators rqs s m (prj_id r) = Some (prj_userId r)"
proof (induction rqs arbitrary: s m)
  case Nil
  then show ?case
    by simp
next
  case (Cons rq rqs)
  from Cons.IH [OF serve_keeps_creators [OF Cons.prems, of rq]] show ?case
    by simp
qed

text \<open>
  Claim C10. A project row that \<open>createProject\<close> inserts has the caller's id as its
  \<open>userId\<close>; \<open>updateProject\<close> leaves the \<open>userId\<close> of every row as it was; and so,
  along any sequence of requests, every project row is owned by the user who created it:
  if \<open>m\<close> names the creator of each project present before the sequence, then after it
  each project row's \<open>userId\<close> is the user recorded for its id by \<open>creators\<close>, which
  adds to \<open>m\<close> the caller of every \<open>createProject\<close> request that returned a project.
\<close>

theorem project_owner_is_creator:
  "(createProject i ctx rt s = (Inr (Some project), s') \<longrightarrow>
      (\<exists>u. caller ctx = Some u \<and> prj_userId project = user_id u
           \<and> projects s' = projects s @ [project]))
   \<and> map prj_userId (projects (snd (updateProject j ctx rt s))) = map prj_userId (projects s)
   \<and> ((\<forall>r \<in> set (projects s). m (prj_id r) = Some (prj_userId r)) \<longrightarrow>
      (\<forall>r \<in> set (projects (serve_all rqs s)).
          creators rqs s m (prj_id r) = Some (prj_userId r)))"
proof (intro conjI impI)
  assume "createProject i ctx rt s = (Inr (Some project), s')"
  from createProject_outcome [OF this]
  show "\<exists>u. caller ctx = Some u \<and> prj_userId project = user_id u
           \<and> projects s' = projects s @ [project]"
    by auto
next
  have "map snd (map (\<lambda>r. (prj_id r, prj_userId r)) (projects (snd (updateProject j ctx rt s))))
      = map snd (map (\<lambda>r. (prj_id r, prj_userId r)) (projects s))"
    by (simp only: updateProject_keeps_owners)
  then show "map prj_userId (projects (snd (updateProject j ctx rt s))) = map prj_userId (projects s)"
    by (simp add: comp_def)
next
  assume "\<forall>r \<in> set (projects s). m (prj_id r) = Some (prj_userId r)"
  then show "\<forall>r \<in> set (projects (serve_all rqs s)).
          creators rqs s m (prj_id r) = Some (prj_userId r)"
    by (rule serve_all_keeps_creators)
qed

text \<open>
  The session in the studio, whose two projects were created by alice and by bob: the new
  project stays bob's, and alice's attempts change nothing.
\<close>

theorem project_owner_is_creator_witness:
  "map (\<lambda>r. (prj_id r, prj_userId r, prj_title r, prj_genre r)) (projects (serve_all session studio))
     = [(''p1'', ''alice'', ''Issue 1'', Some ''noir''), (''p2'', ''bob'', ''Robots'', None),
        (''u9'', ''bob'', ''Zine'', Some ''satire'')]
   \<and> map (creators session studio [''p1'' \<mapsto> ''alice'', ''p2'' \<mapsto> ''bob'']) [''p1'', ''p2'', ''u9'']
     = [Some ''alice'', Some ''bob'', Some ''bob'']"
  using project_owner_is_creator [where s = studio and rqs = session
      and m = "[''p1'' \<mapsto> ''alice'', ''p2'' \<mapsto> ''bob'']"]
  by (simp add: session_def serve_def created_def action_eval studio_eval)

end
